theory Spec2Isabelle
  imports Complex_Main
begin

section \<open>JavaScript values used by the multi-building manager\<close>

text \<open>
  The manager of \<^verbatim>\<open>src/routes/multi-building.ts\<close> is a TypeScript class. Its values
  are modelled as follows.
  \<^item> A JavaScript \<^verbatim>\<open>number\<close> is an IEEE 754 double (section ``Numbers''): a finite
    value, a negative zero, an infinity or \<^verbatim>\<open>NaN\<close>, and every arithmetic operation
    rounds its exact result to the nearest double. The coordinates of a
    \<^verbatim>\<open>google.maps.LatLng\<close> are finite (a latitude is clamped to -90 .. 90, a longitude
    wrapped to -180 .. 180): they are the \<^typ>\<open>real\<close> values of their doubles.
  \<^item> A JavaScript string is a \<^typ>\<open>string\<close>; a \<^typ>\<open>char\<close> stands for one UTF-16 code
    unit in the range 0 to 255, so \<^verbatim>\<open>U+00E4\<close> (a-umlaut) is the single character
    \<^term>\<open>CHR 0xE4\<close>.
  \<^item> A \<^verbatim>\<open>google.maps.Polygon\<close> is an object owned by the map; the manager only holds
    references to it, modelled as numbers.
\<close>

type_synonym Polygon = nat

datatype error = TypeError

text \<open>An omitted (\<^verbatim>\<open>undefined\<close>) argument of a parameter with a default value.\<close>

definition dflt :: "'a \<Rightarrow> 'a option \<Rightarrow> 'a" where
  "dflt d x = (case x of None \<Rightarrow> d | Some v \<Rightarrow> v)"

text \<open>
  \<^verbatim>\<open>xs[i]\<close> on a JavaScript array: \<^verbatim>\<open>undefined\<close> (here \<^term>\<open>None\<close>) outside
  \<^verbatim>\<open>0 .. xs.length - 1\<close>.
\<close>

definition array_get :: "'a list \<Rightarrow> int \<Rightarrow> 'a option" where
  "array_get xs i = (if 0 \<le> i \<and> i < int (length xs) then Some (xs ! nat i) else None)"

subsection \<open>Numbers\<close>

text \<open>
  \<^term>\<open>Num x\<close> is the finite double of value \<open>x\<close> (\<^term>\<open>Num 0\<close> is the positive
  zero), \<^term>\<open>NegZero\<close> the negative zero.
\<close>

datatype number = Num real | NegZero | PosInf | NegInf | NaN

definition pow2 :: "int \<Rightarrow> real" where
  "pow2 k = (if 0 \<le> k then 2 ^ nat k else 1 / 2 ^ nat (- k))"

text \<open>Rounding to the nearest integer, a tie to the even one.\<close>

definition round_half_even :: "real \<Rightarrow> int" where
  "round_half_even z =
     (let f = \<lfloor>z\<rfloor>; r = z - of_int f
      in if r < 1 / 2 then f else if 1 / 2 < r then f + 1 else if even f then f else f + 1)"

text \<open>
  The double nearest to a real number (IEEE 754 binary64, round to nearest, ties to
  even): 53 significant bits at the binary exponent \<open>e\<close> of \<open>x\<close>, which is at least
  -1022 (below it the doubles are subnormal, all multiples of \<open>2^-1074\<close>). A rounded
  magnitude of \<open>2^1024\<close> or more overflows to an infinity; a rounded magnitude of 0
  keeps the sign of \<open>x\<close>. A decimal literal of the source denotes the double nearest to it.
\<close>

definition round_to_double :: "real \<Rightarrow> number" where
  "round_to_double x =
     (if x = 0 then Num 0
      else let e = max \<lfloor>log 2 \<bar>x\<bar>\<rfloor> (- 1022);
               q = pow2 (e - 52);
               y = of_int (round_half_even (x / q)) * q
           in if pow2 1024 \<le> \<bar>y\<bar> then (if x < 0 then NegInf else PosInf)
              else if y = 0 then (if x < 0 then NegZero else Num 0)
              else Num y)"

fun value_of :: "number \<Rightarrow> real" where
  "value_of (Num x) = x"
| "value_of a = 0"

fun sign_bit :: "number \<Rightarrow> bool" where
  "sign_bit (Num x) = (x < 0)"
| "sign_bit NegZero = True"
| "sign_bit NegInf = True"
| "sign_bit a = False"

definition is_zero :: "number \<Rightarrow> bool" where
  "is_zero a = (a = Num 0 \<or> a = NegZero)"

definition is_inf :: "number \<Rightarrow> bool" where
  "is_inf a = (a = PosInf \<or> a = NegInf)"

definition signed_zero :: "bool \<Rightarrow> number" where
  "signed_zero negative = (if negative then NegZero else Num 0)"

definition signed_inf :: "bool \<Rightarrow> number" where
  "signed_inf negative = (if negative then NegInf else PosInf)"

text \<open>
  The operations \<^verbatim>\<open>+\<close>, unary and binary \<^verbatim>\<open>-\<close>, \<^verbatim>\<open>*\<close>, \<^verbatim>\<open>/\<close> and \<^verbatim>\<open><\<close> on numbers,
  \<^verbatim>\<open>Math.abs\<close>, \<^verbatim>\<open>Math.floor\<close> and \<^verbatim>\<open>Math.sqrt\<close>.
\<close>

definition fadd :: "number \<Rightarrow> number \<Rightarrow> number" where
  "fadd a b =
     (if a = NaN \<or> b = NaN then NaN
      else if is_inf a then (if is_inf b \<and> b \<noteq> a then NaN else a)
      else if is_inf b then b
      else if is_zero a \<and> is_zero b then (if a = NegZero \<and> b = NegZero then NegZero else Num 0)
      else if value_of a + value_of b = 0 then Num 0
      else round_to_double (value_of a + value_of b))"

fun fneg :: "number \<Rightarrow> number" where
  "fneg (Num x) = (if x = 0 then NegZero else Num (- x))"
| "fneg NegZero = Num 0"
| "fneg PosInf = NegInf"
| "fneg NegInf = PosInf"
| "fneg NaN = NaN"

definition fsub :: "number \<Rightarrow> number \<Rightarrow> number" where
  "fsub a b = fadd a (fneg b)"

definition fmul :: "number \<Rightarrow> number \<Rightarrow> number" where
  "fmul a b =
     (if a = NaN \<or> b = NaN then NaN
      else if is_inf a \<or> is_inf b
      then (if is_zero a \<or> is_zero b then NaN else signed_inf (sign_bit a \<noteq> sign_bit b))
      else if is_zero a \<or> is_zero b then signed_zero (sign_bit a \<noteq> sign_bit b)
      else round_to_double (value_of a * value_of b))"

definition fdiv :: "number \<Rightarrow> number \<Rightarrow> number" where
  "fdiv a b =
     (if a = NaN \<or> b = NaN then NaN
      else if is_inf a then (if is_inf b then NaN else signed_inf (sign_bit a \<noteq> sign_bit b))
      else if is_inf b then signed_zero (sign_bit a \<noteq> sign_bit b)
      else if is_zero b then (if is_zero a then NaN else signed_inf (sign_bit a \<noteq> sign_bit b))
      else if is_zero a then signed_zero (sign_bit a \<noteq> sign_bit b)
      else round_to_double (value_of a / value_of b))"

fun flt :: "number \<Rightarrow> number \<Rightarrow> bool" where
  "flt NaN b = False"
| "flt a NaN = False"
| "flt PosInf b = False"
| "flt a NegInf = False"
| "flt NegInf b = True"
| "flt a PosInf = True"
| "flt a b = (value_of a < value_of b)"

fun fabs :: "number \<Rightarrow> number" where
  "fabs (Num x) = Num \<bar>x\<bar>"
| "fabs NegZero = Num 0"
| "fabs PosInf = PosInf"
| "fabs NegInf = PosInf"
| "fabs NaN = NaN"

fun ffloor :: "number \<Rightarrow> number" where
  "ffloor (Num x) = Num (of_int \<lfloor>x\<rfloor>)"
| "ffloor a = a"

fun fsqrt :: "number \<Rightarrow> number" where
  "fsqrt (Num x) = (if x < 0 then NaN else round_to_double (sqrt x))"
| "fsqrt NegZero = NegZero"
| "fsqrt PosInf = PosInf"
| "fsqrt NegInf = NaN"
| "fsqrt NaN = NaN"

subsection \<open>Strings\<close>

definition isDigit :: "char \<Rightarrow> bool" where
  "isDigit c = (c \<in> set ''0123456789'')"

definition isLetter :: "char \<Rightarrow> bool" where
  "isLetter c = (c \<in> set ''abcdefghijklmnopqrstuvwxyzABCDEFGHIJKLMNOPQRSTUVWXYZ'')"

text \<open>
  The white space and line terminators that \<^verbatim>\<open>String.prototype.trim\<close> strips, among the
  code units 0 to 255: TAB, LF, VT, FF, CR, SPACE and NBSP.
\<close>

definition isWhiteSpace :: "char \<Rightarrow> bool" where
  "isWhiteSpace c = (c \<in> {CHR 0x09, CHR 0x0A, CHR 0x0B, CHR 0x0C, CHR 0x0D, CHR 0x20, CHR 0xA0})"

definition trim :: "string \<Rightarrow> string" where
  "trim s = rev (dropWhile isWhiteSpace (rev (dropWhile isWhiteSpace s)))"

text \<open>\<^verbatim>\<open>s.split(',')[0]\<close>: the text before the first comma (all of it when there is none).\<close>

definition split_comma_0 :: "string \<Rightarrow> string" where
  "split_comma_0 s = takeWhile (\<lambda>c. c \<noteq> CHR '','') s"

text \<open>
  \<^verbatim>\<open>s.match(/(\d+[a-zA-Z]?)/)\<close>, the first capture group. The pattern is not anchored:
  the match starts at the leftmost position where it succeeds, which is the first decimal
  digit of \<open>s\<close>; \<^verbatim>\<open>\d+\<close> is greedy and takes the whole run of digits, \<^verbatim>\<open>[a-zA-Z]?\<close> takes
  the next code unit when it is an ASCII letter. The result is \<^term>\<open>None\<close> for
  \<^verbatim>\<open>null\<close> (no digit in \<open>s\<close>).
\<close>

fun match_number_letter :: "string \<Rightarrow> string option" where
  "match_number_letter [] = None"
| "match_number_letter (c # cs) =
     (if isDigit c
      then Some (takeWhile isDigit (c # cs) @
                 (case dropWhile isDigit (c # cs) of
                    [] \<Rightarrow> []
                  | r # _ \<Rightarrow> if isLetter r then [r] else []))
      else match_number_letter cs)"

text \<open>The decimal digits of a natural number, most significant first.\<close>

definition digit_char :: "nat \<Rightarrow> char" where
  "digit_char n = ''0123456789'' ! n"

fun digits :: "nat \<Rightarrow> string" where
  "digits n = (if n < 10 then [digit_char n] else digits (n div 10) @ [digit_char (n mod 10)])"

declare digits.simps [simp del]

text \<open>
  \<^verbatim>\<open>String(i)\<close> for an integral number, as the template literal applies it to
  \<^verbatim>\<open>Date.now()\<close>.
\<close>

definition numberToString :: "int \<Rightarrow> string" where
  "numberToString i = (if i < 0 then ''-'' @ digits (nat (- i)) else digits (nat i))"

text \<open>
  \<^verbatim>\<open>x.toFixed(f)\<close>, after ECMA-262 (Number.prototype.toFixed): the sign of \<open>x\<close>, then the
  integer \<open>n\<close> for which \<open>n / 10^f - |x|\<close> is closest to zero (the larger one of two),
  written with at least \<open>f + 1\<close> digits and a point before the last \<open>f\<close>. The branch for
  \<open>|x| \<ge> 10^21\<close> (exponential notation) is not modelled: the coordinates of a
  \<^verbatim>\<open>google.maps.LatLng\<close> are at most 180 in absolute value.
\<close>

definition toFixed :: "real \<Rightarrow> nat \<Rightarrow> string" where
  "toFixed x f =
     (let s = (if x < 0 then ''-'' else '''');
          n = nat \<lfloor>\<bar>x\<bar> * 10 ^ f + 1 / 2\<rfloor>;
          m = digits n;
          m = (if f \<noteq> 0
               then (let m = (if length m \<le> f then replicate (f + 1 - length m) (CHR ''0'') @ m else m);
                         k = length m
                     in take (k - f) m @ ''.'' @ drop (k - f) m)
               else m)
      in s @ m)"

section \<open>The data model\<close>

record LatLng =
  lat :: real
  lng :: real

text \<open>
  Modelled from the spec: the type \<^verbatim>\<open>BuildingInsightsResponse\<close>, whose declaration in
  \<^verbatim>\<open>solar.ts\<close> is missing. The records below have the fields that the manager reads,
  after section 3 of the specification and the fixture of the tests: the list of panel
  configurations, each with a panel count and a yearly DC energy yield, and the
  building-level figures.
\<close>

record SolarPanelConfig =
  panelsCount :: number
  yearlyEnergyDcKwh :: number

record SizeAndSunshineStats =
  areaMeters2 :: number

record SolarPotential =
  maxArrayPanelsCount :: number
  panelCapacityWatts :: number
  maxArrayAreaMeters2 :: number
  carbonOffsetFactorKgPerMwh :: number
  wholeRoofStats :: SizeAndSunshineStats
  solarPanelConfigs :: "SolarPanelConfig list"

record BuildingInsightsResponse =
  solarPotential :: SolarPotential

record SelectedBuilding =
  id' :: string
  buildingInsights :: BuildingInsightsResponse
  configId :: int
  location :: LatLng
  address :: string
  nickname :: "string option"
  boundary :: "Polygon option"
  panels :: "Polygon list"
  isActive :: bool

record AggregatedSolarData =
  totalPanelsCount :: number
  totalYearlyEnergyDcKwh :: number
  totalAreaMeters2 :: number
  totalMaxArrayPanelsCount :: number
  totalMaxArrayAreaMeters2 :: number
  totalRoofArea :: number
  buildings :: "SelectedBuilding list"
  averagePanelCapacityWatts :: number
  totalCarbonOffsetKgPerYear :: number

section \<open>The JavaScript \<^verbatim>\<open>Map\<close> of the manager\<close>

text \<open>
  A \<^verbatim>\<open>Map\<close> iterates in insertion order, so it is a list of key-value pairs whose keys
  are distinct. \<^verbatim>\<open>set\<close> on a present key replaces the value where the key stands, on a
  new key it appends; \<^verbatim>\<open>delete\<close> removes the key.
\<close>

fun Map_get :: "('k \<times> 'v) list \<Rightarrow> 'k \<Rightarrow> 'v option" where
  "Map_get [] k = None"
| "Map_get ((k', v) # kvs) k = (if k' = k then Some v else Map_get kvs k)"

fun Map_set :: "'k \<Rightarrow> 'v \<Rightarrow> ('k \<times> 'v) list \<Rightarrow> ('k \<times> 'v) list" where
  "Map_set k v [] = [(k, v)]"
| "Map_set k v ((k', v') # kvs) = (if k' = k then (k, v) # kvs else (k', v') # Map_set k v kvs)"

definition Map_delete :: "'k \<Rightarrow> ('k \<times> 'v) list \<Rightarrow> ('k \<times> 'v) list" where
  "Map_delete k kvs = filter (\<lambda>kv. fst kv \<noteq> k) kvs"

definition Map_values :: "('k \<times> 'v) list \<Rightarrow> 'v list" where
  "Map_values kvs = map snd kvs"

section \<open>The manager and its environment\<close>

text \<open>
  The state of a \<^verbatim>\<open>MultiBuildingManager\<close>: the map \<^verbatim>\<open>buildings\<close> and whether a
  callback was given to the constructor (\<^verbatim>\<open>onUpdateCallback\<close> is a function or
  \<^verbatim>\<open>undefined\<close>). An entry that a method mutates in place is the value stored under
  its key.
\<close>

record MultiBuildingManager =
  buildings :: "(string \<times> SelectedBuilding) list"
  onUpdateCallback :: bool

text \<open>
  What the manager does to its collaborators, as two logs in the order of the calls: the
  polygons on which it called \<^verbatim>\<open>setMap(null)\<close>, and the arguments with which it invoked
  the callback (the list of entries as it was at the time of the invocation). The callback
  and \<^verbatim>\<open>setMap\<close> belong to the caller and to the map: they are taken to return normally
  and not to call the manager or change its entries.
\<close>

record World =
  setMap_null_calls :: "Polygon list"
  onUpdate_calls :: "SelectedBuilding list list"

definition setMap_null :: "Polygon \<Rightarrow> World \<Rightarrow> World" where
  "setMap_null p w = w\<lparr>setMap_null_calls := setMap_null_calls w @ [p]\<rparr>"

text \<open>
  \<^verbatim>\<open>building.boundary?.setMap(null); building.panels.forEach((panel) => panel.setMap(null))\<close>
\<close>

definition cleanUp :: "SelectedBuilding \<Rightarrow> World \<Rightarrow> World" where
  "cleanUp building w =
     (let w1 = (case boundary building of None \<Rightarrow> w | Some p \<Rightarrow> setMap_null p w)
      in foldl (\<lambda>w' panel. setMap_null panel w') w1 (panels building))"

text \<open>
  Every method takes the manager and the environment and returns its result with the
  manager and the environment after the call.
\<close>

definition new_MultiBuildingManager :: "bool \<Rightarrow> MultiBuildingManager" where
  "new_MultiBuildingManager onUpdate = \<lparr>buildings = [], onUpdateCallback = onUpdate\<rparr>"

definition getBuilding ::
  "MultiBuildingManager \<Rightarrow> World \<Rightarrow> string \<Rightarrow> SelectedBuilding option \<times> MultiBuildingManager \<times> World" where
  "getBuilding m w i = (Map_get (buildings m) i, m, w)"

definition getAllBuildings ::
  "MultiBuildingManager \<Rightarrow> World \<Rightarrow> SelectedBuilding list \<times> MultiBuildingManager \<times> World" where
  "getAllBuildings m w = (Map_values (buildings m), m, w)"

definition getActiveBuildings ::
  "MultiBuildingManager \<Rightarrow> World \<Rightarrow> SelectedBuilding list \<times> MultiBuildingManager \<times> World" where
  "getActiveBuildings m w = (filter (\<lambda>b. isActive b) (Map_values (buildings m)), m, w)"

definition notifyUpdate ::
  "MultiBuildingManager \<Rightarrow> World \<Rightarrow> unit \<times> MultiBuildingManager \<times> World" where
  "notifyUpdate m w =
     (if onUpdateCallback m
      then (case getAllBuildings m w of
              (bs, m1, w1) \<Rightarrow> ((), m1, w1\<lparr>onUpdate_calls := onUpdate_calls w1 @ [bs]\<rparr>))
      else ((), m, w))"

text \<open>\<^verbatim>\<open>Date.now()\<close> is the argument \<open>now\<close>, an integral number of milliseconds.\<close>

definition generateId :: "int \<Rightarrow> LatLng \<Rightarrow> string" where
  "generateId now loc =
     ''building_'' @ toFixed (lat loc) 6 @ ''_'' @ toFixed (lng loc) 6 @ ''_'' @ numberToString now"

definition generateNickname :: "string \<Rightarrow> string" where
  "generateNickname addr =
     (let parts = trim (split_comma_0 addr)
      in case match_number_letter parts of
           Some m1 \<Rightarrow> ''Geb'' @ [CHR 0xE4] @ ''ude '' @ m1
         | None \<Rightarrow> ''Geb'' @ [CHR 0xE4] @ ''ude'')"

text \<open>
  \<^verbatim>\<open>nickname || this.generateNickname(address)\<close>: an omitted nickname and the empty
  string are both falsy.
\<close>

definition addBuilding ::
  "MultiBuildingManager \<Rightarrow> World \<Rightarrow> int \<Rightarrow> BuildingInsightsResponse \<Rightarrow> LatLng \<Rightarrow> string \<Rightarrow>
   int option \<Rightarrow> string option \<Rightarrow> string \<times> MultiBuildingManager \<times> World" where
  "addBuilding m w now insights loc addr cfg nick =
     (let i = generateId now loc;
          building = \<lparr>id' = i,
                      buildingInsights = insights,
                      configId = dflt 0 cfg,
                      location = loc,
                      address = addr,
                      nickname = Some (case nick of
                                         None \<Rightarrow> generateNickname addr
                                       | Some n \<Rightarrow> if n = [] then generateNickname addr else n),
                      boundary = None,
                      panels = [],
                      isActive = True\<rparr>;
          m1 = m\<lparr>buildings := Map_set i building (buildings m)\<rparr>
      in case notifyUpdate m1 w of (u, m2, w2) \<Rightarrow> (i, m2, w2))"

definition removeBuilding ::
  "MultiBuildingManager \<Rightarrow> World \<Rightarrow> string \<Rightarrow> bool \<times> MultiBuildingManager \<times> World" where
  "removeBuilding m w i =
     (case Map_get (buildings m) i of
        Some building \<Rightarrow>
          (let w1 = cleanUp building w;
               m1 = m\<lparr>buildings := Map_delete i (buildings m)\<rparr>
           in case notifyUpdate m1 w1 of (u, m2, w2) \<Rightarrow> (True, m2, w2))
      | None \<Rightarrow> (False, m, w))"

definition updateBuildingConfig ::
  "MultiBuildingManager \<Rightarrow> World \<Rightarrow> string \<Rightarrow> int \<Rightarrow> bool \<times> MultiBuildingManager \<times> World" where
  "updateBuildingConfig m w i cfg =
     (case Map_get (buildings m) i of
        Some building \<Rightarrow>
          (let m1 = m\<lparr>buildings := Map_set i (building\<lparr>configId := cfg\<rparr>) (buildings m)\<rparr>
           in case notifyUpdate m1 w of (u, m2, w2) \<Rightarrow> (True, m2, w2))
      | None \<Rightarrow> (False, m, w))"

definition updateBuildingNickname ::
  "MultiBuildingManager \<Rightarrow> World \<Rightarrow> string \<Rightarrow> string \<Rightarrow> bool \<times> MultiBuildingManager \<times> World" where
  "updateBuildingNickname m w i nick =
     (case Map_get (buildings m) i of
        Some building \<Rightarrow>
          (let m1 = m\<lparr>buildings := Map_set i (building\<lparr>nickname := Some nick\<rparr>) (buildings m)\<rparr>
           in case notifyUpdate m1 w of (u, m2, w2) \<Rightarrow> (True, m2, w2))
      | None \<Rightarrow> (False, m, w))"

definition toggleBuildingActive ::
  "MultiBuildingManager \<Rightarrow> World \<Rightarrow> string \<Rightarrow> bool \<times> MultiBuildingManager \<times> World" where
  "toggleBuildingActive m w i =
     (case Map_get (buildings m) i of
        Some building \<Rightarrow>
          (let m1 = m\<lparr>buildings := Map_set i (building\<lparr>isActive := \<not> isActive building\<rparr>) (buildings m)\<rparr>
           in case notifyUpdate m1 w of (u, m2, w2) \<Rightarrow> (True, m2, w2))
      | None \<Rightarrow> (False, m, w))"

definition setBuildingPanels ::
  "MultiBuildingManager \<Rightarrow> World \<Rightarrow> string \<Rightarrow> Polygon list \<Rightarrow> bool \<times> MultiBuildingManager \<times> World" where
  "setBuildingPanels m w i ps =
     (case Map_get (buildings m) i of
        Some building \<Rightarrow>
          (True, m\<lparr>buildings := Map_set i (building\<lparr>panels := ps\<rparr>) (buildings m)\<rparr>, w)
      | None \<Rightarrow> (False, m, w))"

definition setBuildingBoundary ::
  "MultiBuildingManager \<Rightarrow> World \<Rightarrow> string \<Rightarrow> Polygon \<Rightarrow> bool \<times> MultiBuildingManager \<times> World" where
  "setBuildingBoundary m w i p =
     (case Map_get (buildings m) i of
        Some building \<Rightarrow>
          (True, m\<lparr>buildings := Map_set i (building\<lparr>boundary := Some p\<rparr>) (buildings m)\<rparr>, w)
      | None \<Rightarrow> (False, m, w))"

text \<open>
  The loop of \<^verbatim>\<open>hasBuilding\<close> over the entries of the map, with its early return.
\<close>

fun hasBuilding_loop :: "LatLng \<Rightarrow> number \<Rightarrow> (string \<times> SelectedBuilding) list \<Rightarrow> string option" where
  "hasBuilding_loop loc threshold [] = None"
| "hasBuilding_loop loc threshold ((i, building) # rest) =
     (let latDiff = fabs (fsub (Num (lat loc)) (Num (lat (location building))));
          lngDiff = fabs (fsub (Num (lng loc)) (Num (lng (location building))));
          distance = fsqrt (fadd (fmul latDiff latDiff) (fmul lngDiff lngDiff))
      in if flt distance threshold then Some i else hasBuilding_loop loc threshold rest)"

definition hasBuilding ::
  "MultiBuildingManager \<Rightarrow> World \<Rightarrow> LatLng \<Rightarrow> number option \<Rightarrow> string option \<times> MultiBuildingManager \<times> World" where
  "hasBuilding m w loc threshold =
     (hasBuilding_loop loc (dflt (round_to_double 0.0001) threshold) (buildings m), m, w)"

text \<open>
  The loop of \<^verbatim>\<open>getAggregatedData\<close> over the active buildings. Its running totals are,
  in this order, the local variables \<^verbatim>\<open>totalPanelsCount\<close>, \<^verbatim>\<open>totalYearlyEnergyDcKwh\<close>,
  \<^verbatim>\<open>totalMaxArrayPanelsCount\<close>, \<^verbatim>\<open>totalMaxArrayAreaMeters2\<close>, \<^verbatim>\<open>totalRoofArea\<close>,
  \<^verbatim>\<open>totalCarbonOffset\<close> and \<^verbatim>\<open>totalPanelCapacity\<close>. Reading \<^verbatim>\<open>config.panelsCount\<close> of
  an \<^verbatim>\<open>undefined\<close> configuration throws a \<^verbatim>\<open>TypeError\<close>. The length of an array is
  below \<open>2^32\<close>, so it is a double.
\<close>

type_synonym totals = "number \<times> number \<times> number \<times> number \<times> number \<times> number \<times> number"

fun aggregate_loop :: "number \<Rightarrow> number \<Rightarrow> SelectedBuilding list \<Rightarrow> totals \<Rightarrow> error + totals" where
  "aggregate_loop r d [] acc = Inr acc"
| "aggregate_loop r d (building # rest) (tPanels, tEnergy, tMaxPanels, tMaxArea, tRoof, tCarbon, tCapacity) =
     (let sp = solarPotential (buildingInsights building)
      in case array_get (solarPanelConfigs sp) (configId building) of
           None \<Rightarrow> Inl TypeError
         | Some config \<Rightarrow>
             aggregate_loop r d rest
               (fadd tPanels (ffloor (fmul (panelsCount config) r)),
                fadd tEnergy (fmul (fmul (yearlyEnergyDcKwh config) r) d),
                fadd tMaxPanels (maxArrayPanelsCount sp),
                fadd tMaxArea (maxArrayAreaMeters2 sp),
                fadd tRoof (areaMeters2 (wholeRoofStats sp)),
                fadd tCarbon
                  (fdiv (fmul (fmul (fmul (yearlyEnergyDcKwh config) r) d) (carbonOffsetFactorKgPerMwh sp))
                     (Num 1000)),
                fadd tCapacity (panelCapacityWatts sp)))"

definition getAggregatedData ::
  "MultiBuildingManager \<Rightarrow> World \<Rightarrow> number option \<Rightarrow> number option \<Rightarrow>
   (error + AggregatedSolarData) \<times> MultiBuildingManager \<times> World" where
  "getAggregatedData m w panelCapacityRatio dcToAcDerate =
     (case getActiveBuildings m w of
        (activeBuildings, m1, w1) \<Rightarrow>
          (case aggregate_loop (dflt (Num 1.0) panelCapacityRatio) (dflt (round_to_double 0.85) dcToAcDerate)
                  activeBuildings (Num 0, Num 0, Num 0, Num 0, Num 0, Num 0, Num 0) of
             Inl e \<Rightarrow> (Inl e, m1, w1)
           | Inr (tPanels, tEnergy, tMaxPanels, tMaxArea, tRoof, tCarbon, tCapacity) \<Rightarrow>
               (Inr \<lparr>totalPanelsCount = tPanels,
                     totalYearlyEnergyDcKwh = tEnergy,
                     totalAreaMeters2 = fmul tPanels (Num 2),
                     totalMaxArrayPanelsCount = tMaxPanels,
                     totalMaxArrayAreaMeters2 = tMaxArea,
                     totalRoofArea = tRoof,
                     AggregatedSolarData.buildings = activeBuildings,
                     averagePanelCapacityWatts =
                       (if length activeBuildings > 0
                        then fdiv tCapacity (Num (of_nat (length activeBuildings)))
                        else Num 0),
                     totalCarbonOffsetKgPerYear = tCarbon\<rparr>,
                m1, w1)))"

definition clear :: "MultiBuildingManager \<Rightarrow> World \<Rightarrow> unit \<times> MultiBuildingManager \<times> World" where
  "clear m w =
     (let w1 = foldl (\<lambda>w' building. cleanUp building w') w (Map_values (buildings m));
          m1 = m\<lparr>buildings := []\<rparr>
      in notifyUpdate m1 w1)"

section \<open>Sequences of calls\<close>

text \<open>
  A caller holds one manager and calls its public methods one after the other. A call
  names the method and its arguments; for \<^verbatim>\<open>addBuilding\<close> the first argument is what
  \<^verbatim>\<open>Date.now()\<close> returns during the call.
\<close>

datatype call =
    AddBuilding int BuildingInsightsResponse LatLng string "int option" "string option"
  | RemoveBuilding string
  | UpdateBuildingConfig string int
  | UpdateBuildingNickname string string
  | ToggleBuildingActive string
  | SetBuildingPanels string "Polygon list"
  | SetBuildingBoundary string Polygon
  | GetBuilding string
  | GetAllBuildings
  | GetActiveBuildings
  | HasBuilding LatLng "number option"
  | GetAggregatedData "number option" "number option"
  | Clear

fun exec :: "call \<Rightarrow> MultiBuildingManager \<times> World \<Rightarrow> MultiBuildingManager \<times> World" where
  "exec (AddBuilding now insights loc addr cfg nick) (m, w) = snd (addBuilding m w now insights loc addr cfg nick)"
| "exec (RemoveBuilding i) (m, w) = snd (removeBuilding m w i)"
| "exec (UpdateBuildingConfig i cfg) (m, w) = snd (updateBuildingConfig m w i cfg)"
| "exec (UpdateBuildingNickname i nick) (m, w) = snd (updateBuildingNickname m w i nick)"
| "exec (ToggleBuildingActive i) (m, w) = snd (toggleBuildingActive m w i)"
| "exec (SetBuildingPanels i ps) (m, w) = snd (setBuildingPanels m w i ps)"
| "exec (SetBuildingBoundary i p) (m, w) = snd (setBuildingBoundary m w i p)"
| "exec (GetBuilding i) (m, w) = snd (getBuilding m w i)"
| "exec GetAllBuildings (m, w) = snd (getAllBuildings m w)"
| "exec GetActiveBuildings (m, w) = snd (getActiveBuildings m w)"
| "exec (HasBuilding loc threshold) (m, w) = snd (hasBuilding m w loc threshold)"
| "exec (GetAggregatedData r d) (m, w) = snd (getAggregatedData m w r d)"
| "exec Clear (m, w) = snd (clear m w)"

definition world0 :: World where
  "world0 = \<lparr>setMap_null_calls = [], onUpdate_calls = []\<rparr>"

text \<open>
  The manager and the environment after \<^verbatim>\<open>new MultiBuildingManager(onUpdate)\<close> and the
  calls \<open>cs\<close>, in this order.
\<close>

definition run :: "bool \<Rightarrow> call list \<Rightarrow> MultiBuildingManager \<times> World" where
  "run onUpdate cs = foldl (\<lambda>s c. exec c s) (new_MultiBuildingManager onUpdate, world0) cs"

section \<open>Notions of the specification\<close>

text \<open>
  The configuration that an entry selects, \<^verbatim>\<open>insights.solarPanelConfigs[entry.configIndex]\<close>,
  and the precondition that the index is in range.
\<close>

definition configId_in_range :: "SelectedBuilding \<Rightarrow> bool" where
  "configId_in_range b =
     (0 \<le> configId b \<and> configId b < int (length (solarPanelConfigs (solarPotential (buildingInsights b)))))"

definition chosen_config :: "SelectedBuilding \<Rightarrow> SolarPanelConfig" where
  "chosen_config b = solarPanelConfigs (solarPotential (buildingInsights b)) ! nat (configId b)"

text \<open>
  The sum of a list of numbers as a loop with \<^verbatim>\<open>+=\<close> computes it: from 0, in the order of
  the list, every addition rounded.
\<close>

definition fsum :: "number list \<Rightarrow> number" where
  "fsum xs = foldl fadd (Num 0) xs"

text \<open>
  The planar Euclidean distance in degrees, \<open>sqrt ((\<Delta>lat)\<^sup>2 + (\<Delta>lng)\<^sup>2)\<close>, in the
  arithmetic of doubles.
\<close>

definition distance_deg :: "LatLng \<Rightarrow> LatLng \<Rightarrow> number" where
  "distance_deg a b =
     fsqrt (fadd (fmul (fsub (Num (lat a)) (Num (lat b))) (fsub (Num (lat a)) (Num (lat b))))
                 (fmul (fsub (Num (lng a)) (Num (lng b))) (fsub (Num (lng a)) (Num (lng b)))))"

text \<open>
  The representation invariant of the map: the keys are distinct, and every entry is
  stored under its own \<^verbatim>\<open>id\<close>.
\<close>

definition ids_are_keys :: "MultiBuildingManager \<Rightarrow> bool" where
  "ids_are_keys m =
     (distinct (map fst (buildings m)) \<and> list_all (\<lambda>kv. id' (snd kv) = fst kv) (buildings m))"

text \<open>The number that a string of decimal digits denotes (used to invert \<^const>\<open>digits\<close>).\<close>

definition digits_value :: "string \<Rightarrow> nat" where
  "digits_value s = foldl (\<lambda>a c. 10 * a + (of_char c - 48)) 0 s"

section \<open>The fixture of the tests\<close>

definition mockLatLng1 :: LatLng where
  "mockLatLng1 = \<lparr>lat = 37.4419, lng = - 122.143\<rparr>"

definition mockLatLng2 :: LatLng where
  "mockLatLng2 = \<lparr>lat = 37.442, lng = - 122.1431\<rparr>"

definition mockBuildingInsights :: BuildingInsightsResponse where
  "mockBuildingInsights =
     \<lparr>solarPotential =
        \<lparr>maxArrayPanelsCount = Num 100,
         panelCapacityWatts = Num 400,
         maxArrayAreaMeters2 = Num 200,
         carbonOffsetFactorKgPerMwh = Num 428,
         wholeRoofStats = \<lparr>areaMeters2 = Num 250\<rparr>,
         solarPanelConfigs =
           [\<lparr>panelsCount = Num 50, yearlyEnergyDcKwh = Num 20000\<rparr>,
            \<lparr>panelsCount = Num 75, yearlyEnergyDcKwh = Num 30000\<rparr>,
            \<lparr>panelsCount = Num 100, yearlyEnergyDcKwh = Num 40000\<rparr>]\<rparr>\<rparr>"

text \<open>
  The two \<^verbatim>\<open>addBuilding\<close> calls of the test of the aggregated data, one millisecond
  apart, and the two entries that they create.
\<close>

definition two_adds :: "call list" where
  "two_adds =
     [AddBuilding 1700000000000 mockBuildingInsights mockLatLng1 ''Building 1'' (Some 0) None,
      AddBuilding 1700000000001 mockBuildingInsights mockLatLng2 ''Building 2'' (Some 1) None]"

definition entry1 :: SelectedBuilding where
  "entry1 =
     \<lparr>id' = ''building_37.441900_-122.143000_1700000000000'',
      buildingInsights = mockBuildingInsights,
      configId = 0,
      location = mockLatLng1,
      address = ''Building 1'',
      nickname = Some (''Geb'' @ [CHR 0xE4] @ ''ude 1''),
      boundary = None,
      panels = [],
      isActive = True\<rparr>"

definition entry2 :: SelectedBuilding where
  "entry2 =
     \<lparr>id' = ''building_37.442000_-122.143100_1700000000001'',
      buildingInsights = mockBuildingInsights,
      configId = 1,
      location = mockLatLng2,
      address = ''Building 2'',
      nickname = Some (''Geb'' @ [CHR 0xE4] @ ''ude 2''),
      boundary = None,
      panels = [],
      isActive = True\<rparr>"

definition manager2 :: MultiBuildingManager where
  "manager2 = \<lparr>buildings = [(id' entry1, entry1), (id' entry2, entry2)], onUpdateCallback = True\<rparr>"

definition world2 :: World where
  "world2 = \<lparr>setMap_null_calls = [], onUpdate_calls = [[entry1], [entry1, entry2]]\<rparr>"

text \<open>
  The same manager after \<^verbatim>\<open>toggleBuildingActive\<close> on the second entry, a manager whose
  only entry is inactive, and one whose second entry has a configuration index out of
  range.
\<close>

definition manager_one_active :: MultiBuildingManager where
  "manager_one_active =
     \<lparr>buildings = [(id' entry1, entry1), (id' entry2, entry2\<lparr>isActive := False\<rparr>)],
      onUpdateCallback = True\<rparr>"

definition manager_none_active :: MultiBuildingManager where
  "manager_none_active =
     \<lparr>buildings = [(id' entry2, entry2\<lparr>isActive := False\<rparr>)], onUpdateCallback = True\<rparr>"

definition manager_bad_index :: MultiBuildingManager where
  "manager_bad_index =
     \<lparr>buildings = [(id' entry1, entry1), (id' entry2, entry2\<lparr>configId := 3\<rparr>)],
      onUpdateCallback = True\<rparr>"

text \<open>
  The manager after panels and a boundary were attached to the first entry, and a location
  whose coordinates agree with those of \<^const>\<open>mockLatLng1\<close> to 6 decimal digits.
\<close>

definition manager_with_panels :: MultiBuildingManager where
  "manager_with_panels =
     \<lparr>buildings = [(id' entry1, entry1\<lparr>boundary := Some 3, panels := [1, 2]\<rparr>), (id' entry2, entry2)],
      onUpdateCallback = True\<rparr>"

definition nearLatLng1 :: LatLng where
  "nearLatLng1 = \<lparr>lat = 37.4419000001, lng = - 122.1430000004\<rparr>"

text \<open>The manager and the environment after the first of the two calls.\<close>

definition manager1 :: MultiBuildingManager where
  "manager1 = \<lparr>buildings = [(id' entry1, entry1)], onUpdateCallback = True\<rparr>"

definition world1 :: World where
  "world1 = \<lparr>setMap_null_calls = [], onUpdate_calls = [[entry1]]\<rparr>"

text \<open>
  Two entries on a grid: the first at the origin, the second at latitude 3 and longitude 4,
  and a manager that holds the first and then the second.
\<close>

definition entry_origin :: SelectedBuilding where
  "entry_origin =
     \<lparr>id' = ''building_0.000000_0.000000_1700000000000'',
      buildingInsights = mockBuildingInsights,
      configId = 0,
      location = \<lparr>lat = 0, lng = 0\<rparr>,
      address = ''Building 1'',
      nickname = Some (''Geb'' @ [CHR 0xE4] @ ''ude 1''),
      boundary = None,
      panels = [],
      isActive = True\<rparr>"

definition entry_3_4 :: SelectedBuilding where
  "entry_3_4 =
     \<lparr>id' = ''building_3.000000_4.000000_1700000000001'',
      buildingInsights = mockBuildingInsights,
      configId = 0,
      location = \<lparr>lat = 3, lng = 4\<rparr>,
      address = ''Building 2'',
      nickname = Some (''Geb'' @ [CHR 0xE4] @ ''ude 2''),
      boundary = None,
      panels = [],
      isActive = True\<rparr>"

definition manager_grid :: MultiBuildingManager where
  "manager_grid =
     \<lparr>buildings = [(id' entry_origin, entry_origin), (id' entry_3_4, entry_3_4)],
      onUpdateCallback = True\<rparr>"

text \<open>A manager that holds only the entry at the origin, and three locations.\<close>

definition manager_origin :: MultiBuildingManager where
  "manager_origin = \<lparr>buildings = [(id' entry_origin, entry_origin)], onUpdateCallback = True\<rparr>"

definition latLng_3_4 :: LatLng where
  "latLng_3_4 = \<lparr>lat = 3, lng = 4\<rparr>"

definition latLng_30_40 :: LatLng where
  "latLng_30_40 = \<lparr>lat = 30, lng = 40\<rparr>"

definition latLng_1_1 :: LatLng where
  "latLng_1_1 = \<lparr>lat = 1, lng = 1\<rparr>"

section \<open>Properties of the map\<close>

lemma Map_get_None_iff: "Map_get kvs k = None \<longleftrightarrow> k \<notin> fst ` set kvs"
  by (induction kvs) (auto split: if_splits)

lemma Map_get_Map_set_same: "Map_get (Map_set k v kvs) k = Some v"
  by (induction kvs) auto

lemma Map_get_Map_set_other: "k' \<noteq> k \<Longrightarrow> Map_get (Map_set k v kvs) k' = Map_get kvs k'"
  by (induction kvs) auto

lemma Map_set_Map_set: "Map_set k v' (Map_set k v kvs) = Map_set k v' kvs"
  by (induction kvs) auto

lemma Map_set_same_value: "Map_get kvs k = Some v \<Longrightarrow> Map_set k v kvs = kvs"
  by (induction kvs) (auto split: if_splits)

lemma keys_Map_set_present: "Map_get kvs k = Some v \<Longrightarrow> map fst (Map_set k v' kvs) = map fst kvs"
  by (induction kvs) (auto split: if_splits)

lemma Map_set_absent: "Map_get kvs k = None \<Longrightarrow> Map_set k v kvs = kvs @ [(k, v)]"
  by (induction kvs) (auto split: if_splits)

section \<open>Evaluation\<close>

lemma digits_small: "n < 10 \<Longrightarrow> digits n = [digit_char n]"
  by (simp add: digits.simps)

lemma digits_large: "\<not> n < 10 \<Longrightarrow> digits n = digits (n div 10) @ [digit_char (n mod 10)]"
  by (subst digits.simps) simp

lemma replicate_numeral: "replicate (numeral k) x = x # replicate (pred_numeral k) x"
  by (simp add: numeral_eq_Suc)

lemmas eval_strings = replicate_numeral
  digits_small digits_large digit_char_def numberToString_def toFixed_def generateId_def
  generateNickname_def trim_def split_comma_0_def isWhiteSpace_def isDigit_def isLetter_def
  Let_def

lemma floor_log2_unit: "1 \<le> a \<Longrightarrow> a < 2 \<Longrightarrow> \<lfloor>log 2 a\<rfloor> = 0"
  by (simp add: floor_log_eq_powr_iff)

lemma floor_log2_halve: "2 \<le> a \<Longrightarrow> \<lfloor>log 2 a\<rfloor> = \<lfloor>log 2 (a / 2)\<rfloor> + 1"
proof -
  assume "2 \<le> a"
  then have "log 2 a = log 2 (a / 2) + 1"
    by (simp add: log_divide)
  then show ?thesis by simp
qed

lemma floor_log2_double: "0 < a \<Longrightarrow> a < 1 \<Longrightarrow> \<lfloor>log 2 a\<rfloor> = \<lfloor>log 2 (a * 2)\<rfloor> - 1"
proof -
  assume "0 < a" "a < 1"
  then have "log 2 a = log 2 (a * 2) - 1"
    by (simp add: log_mult)
  then show ?thesis by simp
qed

lemmas eval_double =
  round_to_double_def round_half_even_def pow2_def Let_def floor_log2_unit floor_log2_halve
  floor_log2_double fadd_def fsub_def fmul_def fdiv_def is_zero_def is_inf_def signed_zero_def
  signed_inf_def fsum_def

lemma double_0_0001: "round_to_double 0.0001 = Num (7378697629483821 / 73786976294838206464)"
  by (simp add: eval_double)

lemma notifyUpdate_eq:
  "notifyUpdate m w =
     ((), m, if onUpdateCallback m
             then w\<lparr>onUpdate_calls := onUpdate_calls w @ [Map_values (buildings m)]\<rparr> else w)"
  by (simp add: notifyUpdate_def getAllBuildings_def)

lemma id_entry1: "generateId 1700000000000 mockLatLng1 = id' entry1"
  by (simp add: entry1_def mockLatLng1_def eval_strings)

lemma id_entry2: "generateId 1700000000001 mockLatLng2 = id' entry2"
  by (simp add: entry2_def mockLatLng2_def eval_strings)

lemma nickname_entry1: "generateNickname ''Building 1'' = ''Geb'' @ [CHR 0xE4] @ ''ude 1''"
  by (simp add: eval_strings)

lemma nickname_entry2: "generateNickname ''Building 2'' = ''Geb'' @ [CHR 0xE4] @ ''ude 2''"
  by (simp add: eval_strings)

lemma ids_differ: "id' entry1 \<noteq> id' entry2"
  by (simp add: entry1_def entry2_def)

lemma add_entry1:
  "addBuilding (new_MultiBuildingManager True) world0 1700000000000 mockBuildingInsights mockLatLng1
     ''Building 1'' (Some 0) None =
   (id' entry1, \<lparr>buildings = [(id' entry1, entry1)], onUpdateCallback = True\<rparr>,
    \<lparr>setMap_null_calls = [], onUpdate_calls = [[entry1]]\<rparr>)"
  unfolding addBuilding_def id_entry1 nickname_entry1
  by (simp add: new_MultiBuildingManager_def world0_def notifyUpdate_eq Map_values_def dflt_def entry1_def Let_def)

lemma add_entry2:
  "addBuilding \<lparr>buildings = [(id' entry1, entry1)], onUpdateCallback = True\<rparr>
     \<lparr>setMap_null_calls = [], onUpdate_calls = [[entry1]]\<rparr> 1700000000001 mockBuildingInsights mockLatLng2
     ''Building 2'' (Some 1) None =
   (id' entry2, manager2, world2)"
  unfolding addBuilding_def id_entry2 nickname_entry2
  using ids_differ
  by (simp add: manager2_def world2_def notifyUpdate_eq Map_values_def dflt_def Let_def) (simp add: entry2_def)

lemma run_two_adds: "run True two_adds = (manager2, world2)"
  by (simp add: run_def two_adds_def add_entry1 add_entry2)


section \<open>Operations on an id that no live entry holds\<close>

text \<open>
  Claim C5. For every state of the manager and every id that is not a key of the map (no
  live entry holds it), \<^verbatim>\<open>removeBuilding\<close>, \<^verbatim>\<open>updateBuildingConfig\<close>,
  \<^verbatim>\<open>updateBuildingNickname\<close>, \<^verbatim>\<open>toggleBuildingActive\<close>, \<^verbatim>\<open>setBuildingPanels\<close> and
  \<^verbatim>\<open>setBuildingBoundary\<close> return \<^verbatim>\<open>false\<close> and leave the manager and the environment
  as they were: no entry changes, no polygon is detached and the callback is not invoked.
  The result is the returned boolean; none of these methods has a path that throws.
\<close>

theorem absent_id_returns_false:
  assumes "i \<notin> fst ` set (buildings m)"
  shows "removeBuilding m w i = (False, m, w) \<and>
         updateBuildingConfig m w i cfg = (False, m, w) \<and>
         updateBuildingNickname m w i nick = (False, m, w) \<and>
         toggleBuildingActive m w i = (False, m, w) \<and>
         setBuildingPanels m w i ps = (False, m, w) \<and>
         setBuildingBoundary m w i p = (False, m, w)"
proof -
  from assms have "Map_get (buildings m) i = None"
    by (simp add: Map_get_None_iff)
  then show ?thesis
    by (simp add: removeBuilding_def updateBuildingConfig_def updateBuildingNickname_def
        toggleBuildingActive_def setBuildingPanels_def setBuildingBoundary_def)
qed

theorem absent_id_returns_false_witness:
  "''building_0.000000_0.000000_0'' \<notin> fst ` set (buildings manager2) \<and>
   removeBuilding manager2 world2 ''building_0.000000_0.000000_0'' = (False, manager2, world2) \<and>
   updateBuildingConfig manager2 world2 ''building_0.000000_0.000000_0'' 2 = (False, manager2, world2) \<and>
   updateBuildingNickname manager2 world2 ''building_0.000000_0.000000_0'' ''Office'' = (False, manager2, world2) \<and>
   toggleBuildingActive manager2 world2 ''building_0.000000_0.000000_0'' = (False, manager2, world2) \<and>
   setBuildingPanels manager2 world2 ''building_0.000000_0.000000_0'' [1, 2] = (False, manager2, world2) \<and>
   setBuildingBoundary manager2 world2 ''building_0.000000_0.000000_0'' 3 = (False, manager2, world2)"
proof -
  have absent: "''building_0.000000_0.000000_0'' \<notin> fst ` set (buildings manager2)"
    by (simp add: manager2_def entry1_def entry2_def)
  show ?thesis
    using absent absent_id_returns_false [OF absent, of world2 2 "''Office''" "[1, 2]" 3]
    by simp
qed

section \<open>Toggling twice\<close>

text \<open>
  Claim C7. For every state of the manager and every live id, two consecutive calls of
  \<^verbatim>\<open>toggleBuildingActive\<close> both return \<^verbatim>\<open>true\<close>; the first flips \<^verbatim>\<open>isActive\<close> of
  the entry, the second restores it, and after the second call the whole map (every field
  of every entry, and the order) and the manager are what they were before the first.
\<close>

theorem toggleBuildingActive_twice:
  assumes "Map_get (buildings m) i = Some b"
  shows "case toggleBuildingActive m w i of (r1, m1, w1) \<Rightarrow>
           (case toggleBuildingActive m1 w1 i of (r2, m2, w2) \<Rightarrow>
              r1 \<and> r2 \<and>
              Map_get (buildings m1) i = Some (b\<lparr>isActive := \<not> isActive b\<rparr>) \<and>
              Map_get (buildings m2) i = Some b \<and>
              buildings m2 = buildings m \<and> m2 = m)"
  using assms
  by (simp add: toggleBuildingActive_def notifyUpdate_eq Map_get_Map_set_same Map_set_Map_set
      Map_set_same_value Let_def)

theorem toggleBuildingActive_twice_witness:
  "Map_get (buildings manager2) (id' entry2) = Some entry2 \<and>
   fst (toggleBuildingActive manager2 world2 (id' entry2)) \<and>
   buildings (fst (snd (toggleBuildingActive manager2 world2 (id' entry2)))) =
     [(id' entry1, entry1), (id' entry2, entry2\<lparr>isActive := False\<rparr>)] \<and>
   toggleBuildingActive
     (fst (snd (toggleBuildingActive manager2 world2 (id' entry2))))
     (snd (snd (toggleBuildingActive manager2 world2 (id' entry2)))) (id' entry2) =
   (True, manager2,
    world2\<lparr>onUpdate_calls :=
      onUpdate_calls world2 @ [[entry1, entry2\<lparr>isActive := False\<rparr>], [entry1, entry2]]\<rparr>)"
proof -
  have live: "Map_get (buildings manager2) (id' entry2) = Some entry2"
    using ids_differ by (simp add: manager2_def)
  have active: "isActive entry2"
    by (simp add: entry2_def)
  show ?thesis
    using live active ids_differ toggleBuildingActive_twice [OF live, of world2]
    by (simp add: toggleBuildingActive_def notifyUpdate_eq Let_def manager2_def Map_values_def
        split: prod.splits)
qed

section \<open>Aggregation\<close>

lemma array_get_in_range:
  "configId_in_range b \<Longrightarrow>
   array_get (solarPanelConfigs (solarPotential (buildingInsights b))) (configId b) = Some (chosen_config b)"
  by (simp add: configId_in_range_def array_get_def chosen_config_def)

lemma array_get_out_of_range:
  "\<not> configId_in_range b \<Longrightarrow>
   array_get (solarPanelConfigs (solarPotential (buildingInsights b))) (configId b) = None"
  by (auto simp add: configId_in_range_def array_get_def)

lemma aggregate_loop_sums:
  assumes "\<forall>b\<in>set bs. configId_in_range b"
  shows "aggregate_loop r d bs (a1, a2, a3, a4, a5, a6, a7) =
         Inr (foldl fadd a1 (map (\<lambda>b. ffloor (fmul (panelsCount (chosen_config b)) r)) bs),
              foldl fadd a2 (map (\<lambda>b. fmul (fmul (yearlyEnergyDcKwh (chosen_config b)) r) d) bs),
              foldl fadd a3 (map (\<lambda>b. maxArrayPanelsCount (solarPotential (buildingInsights b))) bs),
              foldl fadd a4 (map (\<lambda>b. maxArrayAreaMeters2 (solarPotential (buildingInsights b))) bs),
              foldl fadd a5 (map (\<lambda>b. areaMeters2 (wholeRoofStats (solarPotential (buildingInsights b)))) bs),
              foldl fadd a6
                (map (\<lambda>b. fdiv (fmul (fmul (fmul (yearlyEnergyDcKwh (chosen_config b)) r) d)
                                  (carbonOffsetFactorKgPerMwh (solarPotential (buildingInsights b))))
                             (Num 1000)) bs),
              foldl fadd a7 (map (\<lambda>b. panelCapacityWatts (solarPotential (buildingInsights b))) bs))"
  using assms
proof (induction bs arbitrary: a1 a2 a3 a4 a5 a6 a7)
  case Nil
  show ?case by simp
next
  case (Cons b bs)
  from Cons.prems have here: "configId_in_range b" and rest: "\<forall>b\<in>set bs. configId_in_range b"
    by simp_all
  show ?case
    by (simp add: array_get_in_range [OF here] Cons.IH [OF rest] Let_def)
qed

lemma aggregate_loop_throws:
  assumes "\<exists>b\<in>set bs. \<not> configId_in_range b"
  shows "aggregate_loop r d bs acc = Inl TypeError"
  using assms
proof (induction bs arbitrary: acc)
  case Nil
  then show ?case by simp
next
  case (Cons b bs)
  obtain a1 a2 a3 a4 a5 a6 a7 where acc: "acc = (a1, a2, a3, a4, a5, a6, a7)"
    by (cases acc) auto
  show ?case
  proof (cases "configId_in_range b")
    case True
    with Cons.prems have "\<exists>b\<in>set bs. \<not> configId_in_range b" by simp
    from Cons.IH [OF this] show ?thesis
      by (simp add: acc array_get_in_range [OF True] Let_def)
  next
    case False
    then show ?thesis
      by (simp add: acc array_get_out_of_range Let_def)
  qed
qed

lemma fixture_energy: "fsum [fmul (fmul (Num 20000) (Num 1)) (round_to_double 0.85)] = Num 17000"
  by (simp add: eval_double)

lemma fixture_panels: "fsum [ffloor (fmul (Num 50) (Num 1))] = Num 50"
  by (simp add: eval_double)

text \<open>
  Claim C1. For every state of the manager and every \<^verbatim>\<open>panelCapacityRatio\<close> \<open>r\<close> and
  \<^verbatim>\<open>dcToAcDerate\<close> \<open>d\<close>: if the configuration index of every active entry is in range,
  then \<^verbatim>\<open>getAggregatedData(r, d)\<close> returns a result (and leaves the manager and the
  environment as they were) in which, with the sums taken over exactly the active entries,
  \<^verbatim>\<open>totalPanelsCount\<close> is the sum of \<open>floor (panelsCount * r)\<close>,
  \<^verbatim>\<open>totalYearlyEnergyDcKwh\<close> is the sum of \<open>yearlyEnergyDcKwh * r * d\<close>,
  \<^verbatim>\<open>totalMaxArrayPanelsCount\<close>, \<^verbatim>\<open>totalMaxArrayAreaMeters2\<close> and \<^verbatim>\<open>totalRoofArea\<close> are
  the sums of the building-level figures, \<^verbatim>\<open>totalCarbonOffsetKgPerYear\<close> is the sum of
  \<open>yearlyEnergyDcKwh * r * d * carbonOffsetFactorKgPerMwh / 1000\<close>, \<^verbatim>\<open>totalAreaMeters2\<close>
  is twice \<^verbatim>\<open>totalPanelsCount\<close>, and \<^verbatim>\<open>buildings\<close> is the list of the active entries. The
  products, the quotient, the floor and the sums are those of doubles, the sums taken from 0
  in insertion order. In particular one active entry with 50 panels and a yearly yield of
  20000, at \<open>r = 1.0\<close> and \<open>d = 0.85\<close>, gives a \<^verbatim>\<open>totalYearlyEnergyDcKwh\<close> of 17000 (and
  50 panels).
\<close>

theorem getAggregatedData_sums:
  assumes "\<forall>b\<in>set (fst (getActiveBuildings m w)). configId_in_range b"
  shows "\<exists>res. getAggregatedData m w (Some r) (Some d) = (Inr res, m, w) \<and>
           totalPanelsCount res =
             fsum (map (\<lambda>b. ffloor (fmul (panelsCount (chosen_config b)) r))
                       (fst (getActiveBuildings m w))) \<and>
           totalYearlyEnergyDcKwh res =
             fsum (map (\<lambda>b. fmul (fmul (yearlyEnergyDcKwh (chosen_config b)) r) d)
                       (fst (getActiveBuildings m w))) \<and>
           totalMaxArrayPanelsCount res =
             fsum (map (\<lambda>b. maxArrayPanelsCount (solarPotential (buildingInsights b)))
                       (fst (getActiveBuildings m w))) \<and>
           totalMaxArrayAreaMeters2 res =
             fsum (map (\<lambda>b. maxArrayAreaMeters2 (solarPotential (buildingInsights b)))
                       (fst (getActiveBuildings m w))) \<and>
           totalRoofArea res =
             fsum (map (\<lambda>b. areaMeters2 (wholeRoofStats (solarPotential (buildingInsights b))))
                       (fst (getActiveBuildings m w))) \<and>
           totalCarbonOffsetKgPerYear res =
             fsum (map (\<lambda>b. fdiv (fmul (fmul (fmul (yearlyEnergyDcKwh (chosen_config b)) r) d)
                                       (carbonOffsetFactorKgPerMwh (solarPotential (buildingInsights b))))
                                  (Num 1000))
                       (fst (getActiveBuildings m w))) \<and>
           totalAreaMeters2 res = fmul (totalPanelsCount res) (Num 2) \<and>
           AggregatedSolarData.buildings res = fst (getActiveBuildings m w) \<and>
           (\<forall>b. fst (getActiveBuildings m w) = [b] \<and> panelsCount (chosen_config b) = Num 50 \<and>
                yearlyEnergyDcKwh (chosen_config b) = Num 20000 \<and> r = Num 1.0 \<and>
                d = round_to_double 0.85 \<longrightarrow>
                totalYearlyEnergyDcKwh res = Num 17000 \<and> totalPanelsCount res = Num 50)"
proof -
  obtain bs where bs: "getActiveBuildings m w = (bs, m, w)"
    by (simp add: getActiveBuildings_def)
  then have fst_bs: "fst (getActiveBuildings m w) = bs"
    by simp
  from assms have ok: "\<forall>b\<in>set bs. configId_in_range b"
    by (simp add: fst_bs)
  obtain res where
    run: "getAggregatedData m w (Some r) (Some d) = (Inr res, m, w)" and
    energy: "totalYearlyEnergyDcKwh res =
               fsum (map (\<lambda>b. fmul (fmul (yearlyEnergyDcKwh (chosen_config b)) r) d) bs)" and
    count: "totalPanelsCount res = fsum (map (\<lambda>b. ffloor (fmul (panelsCount (chosen_config b)) r)) bs)" and
    others:
      "totalMaxArrayPanelsCount res =
         fsum (map (\<lambda>b. maxArrayPanelsCount (solarPotential (buildingInsights b))) bs)"
      "totalMaxArrayAreaMeters2 res =
         fsum (map (\<lambda>b. maxArrayAreaMeters2 (solarPotential (buildingInsights b))) bs)"
      "totalRoofArea res =
         fsum (map (\<lambda>b. areaMeters2 (wholeRoofStats (solarPotential (buildingInsights b)))) bs)"
      "totalCarbonOffsetKgPerYear res =
         fsum (map (\<lambda>b. fdiv (fmul (fmul (fmul (yearlyEnergyDcKwh (chosen_config b)) r) d)
                                   (carbonOffsetFactorKgPerMwh (solarPotential (buildingInsights b))))
                              (Num 1000)) bs)"
      "totalAreaMeters2 res = fmul (totalPanelsCount res) (Num 2)"
      "AggregatedSolarData.buildings res = bs"
    by (simp add: getAggregatedData_def bs dflt_def aggregate_loop_sums [OF ok] fsum_def)
  have particular:
    "\<forall>b. bs = [b] \<and> panelsCount (chosen_config b) = Num 50 \<and>
         yearlyEnergyDcKwh (chosen_config b) = Num 20000 \<and> r = Num 1.0 \<and>
         d = round_to_double 0.85 \<longrightarrow>
         totalYearlyEnergyDcKwh res = Num 17000 \<and> totalPanelsCount res = Num 50"
    using fixture_energy fixture_panels by (auto simp add: energy count)
  show ?thesis
    unfolding fst_bs
    using run energy count others particular by blast
qed

text \<open>
  Claim C6. For every state of the manager with no active entry and all arguments (given
  or left to their defaults), \<^verbatim>\<open>getAggregatedData\<close> returns a result and does not throw:
  every total is 0, \<^verbatim>\<open>averagePanelCapacityWatts\<close> is 0 (the division by the number of
  active entries is behind the test \<^verbatim>\<open>activeBuildings.length > 0\<close> and is not taken), and
  \<^verbatim>\<open>buildings\<close> is empty. The manager and the environment are as they were.
\<close>

theorem getAggregatedData_none_active:
  assumes "fst (getActiveBuildings m w) = []"
  shows "getAggregatedData m w r d =
           (Inr \<lparr>totalPanelsCount = Num 0,
                 totalYearlyEnergyDcKwh = Num 0,
                 totalAreaMeters2 = Num 0,
                 totalMaxArrayPanelsCount = Num 0,
                 totalMaxArrayAreaMeters2 = Num 0,
                 totalRoofArea = Num 0,
                 AggregatedSolarData.buildings = [],
                 averagePanelCapacityWatts = Num 0,
                 totalCarbonOffsetKgPerYear = Num 0\<rparr>, m, w)"
proof -
  from assms have "getActiveBuildings m w = ([], m, w)"
    by (simp add: getActiveBuildings_def)
  moreover have "fmul (Num 0) (Num 2) = Num 0"
    by (simp add: fmul_def is_zero_def is_inf_def signed_zero_def)
  ultimately show ?thesis
    by (simp add: getAggregatedData_def)
qed

text \<open>
  Claim C10. \<^verbatim>\<open>getAggregatedData\<close> is a pure query: for every state and all arguments
  it leaves the manager (every entry, the map) and the environment (no callback invocation,
  no polygon detached) as they were, whether it returns or throws. It returns exactly when
  the configuration index of every active entry is in range, and then the field
  \<^verbatim>\<open>buildings\<close> of the result is the list of \<^verbatim>\<open>getActiveBuildings\<close>, which is the list of
  all entries in insertion order restricted to the active ones.
\<close>

theorem getAggregatedData_pure:
  "snd (getAggregatedData m w r d) = (m, w) \<and>
   fst (getActiveBuildings m w) = filter isActive (fst (getAllBuildings m w)) \<and>
   (case fst (getAggregatedData m w r d) of
      Inr res \<Rightarrow> AggregatedSolarData.buildings res = fst (getActiveBuildings m w) \<and>
                 (\<forall>b\<in>set (fst (getActiveBuildings m w)). configId_in_range b)
    | Inl e \<Rightarrow> e = TypeError \<and> (\<exists>b\<in>set (fst (getActiveBuildings m w)). \<not> configId_in_range b))"
proof -
  obtain bs where bs: "getActiveBuildings m w = (bs, m, w)"
    by (simp add: getActiveBuildings_def)
  have all: "fst (getActiveBuildings m w) = filter isActive (fst (getAllBuildings m w))"
    by (simp add: getActiveBuildings_def getAllBuildings_def)
  have rest:
    "snd (getAggregatedData m w r d) = (m, w) \<and>
     (case fst (getAggregatedData m w r d) of
        Inr res \<Rightarrow> AggregatedSolarData.buildings res = bs \<and> (\<forall>b\<in>set bs. configId_in_range b)
      | Inl e \<Rightarrow> e = TypeError \<and> (\<exists>b\<in>set bs. \<not> configId_in_range b))"
  proof (cases "\<forall>b\<in>set bs. configId_in_range b")
    case True
    then show ?thesis
      by (simp add: getAggregatedData_def bs aggregate_loop_sums [OF True])
  next
    case False
    then have bad: "\<exists>b\<in>set bs. \<not> configId_in_range b" by simp
    show ?thesis
      using bad by (simp add: getAggregatedData_def bs aggregate_loop_throws [OF bad])
  qed
  have fst_bs: "fst (getActiveBuildings m w) = bs"
    by (simp add: bs)
  from all rest show ?thesis
    unfolding fst_bs by simp
qed

lemma entry1_in_range: "configId_in_range entry1"
  by (simp add: configId_in_range_def entry1_def mockBuildingInsights_def)

lemma entry2_in_range: "configId_in_range entry2"
  by (simp add: configId_in_range_def entry2_def mockBuildingInsights_def)

lemma chosen_config_entry1: "chosen_config entry1 = \<lparr>panelsCount = Num 50, yearlyEnergyDcKwh = Num 20000\<rparr>"
  by (simp add: chosen_config_def entry1_def mockBuildingInsights_def)

lemma chosen_config_entry2: "chosen_config entry2 = \<lparr>panelsCount = Num 75, yearlyEnergyDcKwh = Num 30000\<rparr>"
  by (simp add: chosen_config_def entry2_def mockBuildingInsights_def)

lemma active_one: "fst (getActiveBuildings manager_one_active world2) = [entry1]"
  by (simp add: getActiveBuildings_def manager_one_active_def Map_values_def entry1_def)

lemma active_two: "fst (getActiveBuildings manager2 world2) = [entry1, entry2]"
  by (simp add: getActiveBuildings_def manager2_def Map_values_def entry1_def entry2_def)

theorem getAggregatedData_sums_witness:
  "fst (getActiveBuildings manager_one_active world2) = [entry1] \<and>
   configId_in_range entry1 \<and>
   (\<exists>res. getAggregatedData manager_one_active world2 (Some (Num 1.0)) (Some (round_to_double 0.85)) =
            (Inr res, manager_one_active, world2) \<and>
          totalPanelsCount res = Num 50 \<and>
          totalYearlyEnergyDcKwh res = Num 17000 \<and>
          totalMaxArrayPanelsCount res = Num 100 \<and>
          totalMaxArrayAreaMeters2 res = Num 200 \<and>
          totalRoofArea res = Num 250 \<and>
          totalCarbonOffsetKgPerYear res = Num 7276 \<and>
          totalAreaMeters2 res = Num 100 \<and>
          AggregatedSolarData.buildings res = [entry1]) \<and>
   (\<exists>res. getAggregatedData manager_one_active world2 (Some (round_to_double 1.2))
            (Some (round_to_double 0.85)) = (Inr res, manager_one_active, world2) \<and>
          totalPanelsCount res = Num 60 \<and>
          totalYearlyEnergyDcKwh res = Num 20400 \<and>
          totalAreaMeters2 res = Num 120) \<and>
   fst (getActiveBuildings manager2 world2) = [entry1, entry2] \<and>
   configId_in_range entry2 \<and>
   (\<exists>res. getAggregatedData manager2 world2 (Some (Num 1.0)) (Some (round_to_double 0.85)) =
            (Inr res, manager2, world2) \<and>
          totalPanelsCount res = Num 125 \<and>
          totalYearlyEnergyDcKwh res = Num 42500 \<and>
          totalMaxArrayPanelsCount res = Num 200 \<and>
          totalCarbonOffsetKgPerYear res = Num 18190 \<and>
          totalAreaMeters2 res = Num 250 \<and>
          AggregatedSolarData.buildings res = [entry1, entry2])"
proof -
  have hyp1: "\<forall>b\<in>set (fst (getActiveBuildings manager_one_active world2)). configId_in_range b"
    by (simp add: active_one entry1_in_range)
  have hyp2: "\<forall>b\<in>set (fst (getActiveBuildings manager2 world2)). configId_in_range b"
    by (simp add: active_two entry1_in_range entry2_in_range)
  have insights: "solarPotential (buildingInsights entry1) = solarPotential mockBuildingInsights"
    "solarPotential (buildingInsights entry2) = solarPotential mockBuildingInsights"
    by (simp_all add: entry1_def entry2_def)
  have sums1:
    "fsum [ffloor (fmul (Num 50) (Num 1))] = Num 50"
    "fsum [fmul (fmul (Num 20000) (Num 1)) (round_to_double (17 / 20))] = Num 17000"
    "fsum [Num 100] = Num 100" "fsum [Num 200] = Num 200" "fsum [Num 250] = Num 250"
    "fsum [fdiv (fmul (fmul (fmul (Num 20000) (Num 1)) (round_to_double (17 / 20))) (Num 428))
                (Num 1000)] = Num 7276"
    "fmul (Num 50) (Num 2) = Num 100"
    by (simp_all add: eval_double)
  have sums2:
    "fsum [ffloor (fmul (Num 50) (round_to_double (6 / 5)))] = Num 60"
    "fsum [fmul (fmul (Num 20000) (round_to_double (6 / 5))) (round_to_double (17 / 20))] = Num 20400"
    "fmul (Num 60) (Num 2) = Num 120"
    by (simp_all add: eval_double)
  have sums3:
    "fsum [ffloor (fmul (Num 50) (Num 1)), ffloor (fmul (Num 75) (Num 1))] = Num 125"
    "fsum [fmul (fmul (Num 20000) (Num 1)) (round_to_double (17 / 20)),
           fmul (fmul (Num 30000) (Num 1)) (round_to_double (17 / 20))] = Num 42500"
    "fsum [Num 100, Num 100] = Num 200"
    "fsum [fdiv (fmul (fmul (fmul (Num 20000) (Num 1)) (round_to_double (17 / 20))) (Num 428))
                (Num 1000),
           fdiv (fmul (fmul (fmul (Num 30000) (Num 1)) (round_to_double (17 / 20))) (Num 428))
                (Num 1000)] = Num 18190"
    "fmul (Num 125) (Num 2) = Num 250"
    by (simp_all add: eval_double)
  have one: "\<exists>res. getAggregatedData manager_one_active world2 (Some (Num 1.0)) (Some (round_to_double 0.85)) =
            (Inr res, manager_one_active, world2) \<and>
          totalPanelsCount res = Num 50 \<and>
          totalYearlyEnergyDcKwh res = Num 17000 \<and>
          totalMaxArrayPanelsCount res = Num 100 \<and>
          totalMaxArrayAreaMeters2 res = Num 200 \<and>
          totalRoofArea res = Num 250 \<and>
          totalCarbonOffsetKgPerYear res = Num 7276 \<and>
          totalAreaMeters2 res = Num 100 \<and>
          AggregatedSolarData.buildings res = [entry1]"
    using getAggregatedData_sums [OF hyp1, of "Num 1.0" "round_to_double 0.85"]
    by (auto simp add: active_one chosen_config_entry1 insights mockBuildingInsights_def sums1)
  have ratio: "\<exists>res. getAggregatedData manager_one_active world2 (Some (round_to_double 1.2))
            (Some (round_to_double 0.85)) = (Inr res, manager_one_active, world2) \<and>
          totalPanelsCount res = Num 60 \<and>
          totalYearlyEnergyDcKwh res = Num 20400 \<and>
          totalAreaMeters2 res = Num 120"
    using getAggregatedData_sums [OF hyp1, of "round_to_double 1.2" "round_to_double 0.85"]
    by (auto simp add: active_one chosen_config_entry1 insights mockBuildingInsights_def sums2)
  have two: "\<exists>res. getAggregatedData manager2 world2 (Some (Num 1.0)) (Some (round_to_double 0.85)) =
            (Inr res, manager2, world2) \<and>
          totalPanelsCount res = Num 125 \<and>
          totalYearlyEnergyDcKwh res = Num 42500 \<and>
          totalMaxArrayPanelsCount res = Num 200 \<and>
          totalCarbonOffsetKgPerYear res = Num 18190 \<and>
          totalAreaMeters2 res = Num 250 \<and>
          AggregatedSolarData.buildings res = [entry1, entry2]"
    using getAggregatedData_sums [OF hyp2, of "Num 1.0" "round_to_double 0.85"]
    by (auto simp add: active_two chosen_config_entry1 chosen_config_entry2 insights
        mockBuildingInsights_def sums3)
  from one ratio two show ?thesis
    by (simp only: active_one active_two entry1_in_range entry2_in_range simp_thms)
qed

theorem getAggregatedData_none_active_witness:
  "fst (getActiveBuildings manager_none_active world2) = [] \<and>
   getAggregatedData manager_none_active world2 (Some (Num 1.0)) (Some (round_to_double 0.85)) =
     (Inr \<lparr>totalPanelsCount = Num 0,
           totalYearlyEnergyDcKwh = Num 0,
           totalAreaMeters2 = Num 0,
           totalMaxArrayPanelsCount = Num 0,
           totalMaxArrayAreaMeters2 = Num 0,
           totalRoofArea = Num 0,
           AggregatedSolarData.buildings = [],
           averagePanelCapacityWatts = Num 0,
           totalCarbonOffsetKgPerYear = Num 0\<rparr>, manager_none_active, world2)"
proof -
  have hyp: "fst (getActiveBuildings manager_none_active world2) = []"
    by (simp add: getActiveBuildings_def manager_none_active_def Map_values_def)
  from hyp getAggregatedData_none_active [OF hyp, of "Some (Num 1.0)" "Some (round_to_double 0.85)"]
  show ?thesis
    by (simp only: simp_thms)
qed

theorem getAggregatedData_pure_witness:
  "snd (getAggregatedData manager2 world2 None None) = (manager2, world2) \<and>
   fst (getActiveBuildings manager2 world2) = [entry1, entry2] \<and>
   (\<exists>res. fst (getAggregatedData manager2 world2 None None) = Inr res \<and>
          AggregatedSolarData.buildings res = [entry1, entry2]) \<and>
   getAggregatedData manager_bad_index world2 None None = (Inl TypeError, manager_bad_index, world2) \<and>
   \<not> configId_in_range (entry2\<lparr>configId := 3\<rparr>)"
proof -
  have in_range: "\<forall>b\<in>set (fst (getActiveBuildings manager2 world2)). configId_in_range b"
    by (simp add: active_two entry1_in_range entry2_in_range)
  have good: "\<exists>res. fst (getAggregatedData manager2 world2 None None) = Inr res \<and>
                AggregatedSolarData.buildings res = [entry1, entry2]"
    using getAggregatedData_pure [of manager2 world2 None None] in_range
    by (cases "fst (getAggregatedData manager2 world2 None None)") (simp_all add: active_two)
  have out: "\<not> configId_in_range (entry2\<lparr>configId := 3\<rparr>)"
    by (simp add: configId_in_range_def entry2_def mockBuildingInsights_def)
  have active_bad: "fst (getActiveBuildings manager_bad_index world2) = [entry1, entry2\<lparr>configId := 3\<rparr>]"
    by (simp add: getActiveBuildings_def manager_bad_index_def Map_values_def entry1_def entry2_def)
  have bad: "fst (getAggregatedData manager_bad_index world2 None None) = Inl TypeError"
    using getAggregatedData_pure [of manager_bad_index world2 None None] out entry1_in_range
    by (cases "fst (getAggregatedData manager_bad_index world2 None None)") (simp_all add: active_bad)
  have bad_all: "getAggregatedData manager_bad_index world2 None None =
                   (Inl TypeError, manager_bad_index, world2)"
    using bad getAggregatedData_pure [of manager_bad_index world2 None None]
    by (simp add: prod_eq_iff)
  show ?thesis
    using getAggregatedData_pure [of manager2 world2 None None] good bad_all out
    by (simp add: active_two)
qed

section \<open>Proximity match\<close>

lemma fmul_fabs: "fmul (fabs x) (fabs x) = fmul x x"
  by (cases x) (simp_all add: fmul_def is_zero_def is_inf_def signed_zero_def signed_inf_def)

lemma hasBuilding_loop_find:
  "hasBuilding_loop loc t kvs =
     map_option fst (find (\<lambda>kv. flt (distance_deg loc (location (snd kv))) t) kvs)"
  by (induction kvs) (auto simp add: distance_deg_def fmul_fabs Let_def)

lemma first_of_one:
  assumes "case r of
             Some i \<Rightarrow> (\<exists>k<length kvs. fst (kvs ! k) = i \<and> A k i \<and> P k \<and> (\<forall>j<k. \<not> P j))
           | None \<Rightarrow> (\<forall>k<length kvs. \<not> P k)"
    and "length kvs = 1"
  shows "r = (if P 0 then Some (fst (kvs ! 0)) else None)"
proof (cases r)
  case None
  with assms have "\<not> P 0" by simp
  with None show ?thesis by simp
next
  case (Some i)
  with assms obtain k where k: "k < 1" "fst (kvs ! k) = i" "P k"
    by auto
  then have "k = 0" by simp
  with k Some show ?thesis by simp
qed

lemma first_of_two:
  assumes "case r of
             Some i \<Rightarrow> (\<exists>k<length kvs. fst (kvs ! k) = i \<and> A k i \<and> P k \<and> (\<forall>j<k. \<not> P j))
           | None \<Rightarrow> (\<forall>k<length kvs. \<not> P k)"
    and "length kvs = 2"
  shows "r = (if P 0 then Some (fst (kvs ! 0)) else if P 1 then Some (fst (kvs ! 1)) else None)"
proof (cases r)
  case None
  with assms have "\<not> P 0" "\<not> P 1" by simp_all
  with None show ?thesis by simp
next
  case (Some i)
  with assms obtain k where k: "k < 2" "fst (kvs ! k) = i" "P k" "\<forall>j<k. \<not> P j"
    by auto
  from k(1) have "k = 0 \<or> k = 1" by auto
  then show ?thesis
  proof
    assume "k = 0"
    with k Some show ?thesis by simp
  next
    assume "k = 1"
    with k Some show ?thesis by simp
  qed
qed

text \<open>
  Claim C3. For every state of the manager, location and threshold, \<^verbatim>\<open>hasBuilding\<close>
  returns the key (which is the \<^verbatim>\<open>id\<close> of the entry wherever the entries are stored
  under their ids) of the first entry in insertion order whose planar Euclidean distance in
  degrees to the location, \<open>sqrt ((\<Delta>lat)\<^sup>2 + (\<Delta>lng)\<^sup>2)\<close>, is strictly less than the
  threshold: that entry is within the threshold and no entry before it is. It returns
  \<^verbatim>\<open>null\<close> when no entry is within the threshold. The manager and the environment are
  as they were. The differences, the squares, their sum, the square root and the comparison
  are those of doubles, each operation rounded. A call without a threshold is the call with
  the double nearest to 0.0001.
\<close>

theorem hasBuilding_first_within_threshold:
  "(\<exists>r. hasBuilding m w loc (Some threshold) = (r, m, w) \<and>
      (case r of
         Some i \<Rightarrow>
           (\<exists>k<length (buildings m).
              fst (buildings m ! k) = i \<and>
              (ids_are_keys m \<longrightarrow> id' (snd (buildings m ! k)) = i) \<and>
              flt (distance_deg loc (location (snd (buildings m ! k)))) threshold \<and>
              (\<forall>j<k. \<not> flt (distance_deg loc (location (snd (buildings m ! j)))) threshold))
       | None \<Rightarrow>
           (\<forall>k<length (buildings m).
              \<not> flt (distance_deg loc (location (snd (buildings m ! k)))) threshold))) \<and>
   hasBuilding m w loc None = hasBuilding m w loc (Some (round_to_double 0.0001))"
proof -
  have default: "hasBuilding m w loc None = hasBuilding m w loc (Some (round_to_double 0.0001))"
    by (simp add: hasBuilding_def dflt_def)
  let ?P = "\<lambda>kv. flt (distance_deg loc (location (snd kv))) threshold"
  have run: "hasBuilding m w loc (Some threshold) = (map_option fst (find ?P (buildings m)), m, w)"
    by (simp add: hasBuilding_def dflt_def hasBuilding_loop_find)
  have keys: "ids_are_keys m \<Longrightarrow> k < length (buildings m) \<Longrightarrow> id' (snd (buildings m ! k)) = fst (buildings m ! k)" for k
    by (simp add: ids_are_keys_def list_all_length)
  show ?thesis
  proof (cases "find ?P (buildings m)")
    case None
    then have "\<forall>kv\<in>set (buildings m). \<not> ?P kv"
      by (auto simp add: find_None_iff)
    then have "\<forall>k<length (buildings m). \<not> ?P (buildings m ! k)"
      using nth_mem by blast
    with None run default show ?thesis by simp
  next
    case (Some kv)
    then obtain k where "k < length (buildings m)" "?P (buildings m ! k)" "kv = buildings m ! k"
      "\<forall>j<k. \<not> ?P (buildings m ! j)"
      by (auto simp add: find_Some_iff)
    with Some run keys default show ?thesis by auto
  qed
qed

lemma sqrt_of_square: "0 \<le> x \<Longrightarrow> y = x * x \<Longrightarrow> sqrt y = x"
  by simp

lemma sqrt_25: "sqrt 25 = 5"
  by (rule sqrt_of_square) simp_all

lemma sqrt_2025: "sqrt 2025 = 45"
  by (rule sqrt_of_square) simp_all

lemma sqrt_2500: "sqrt 2500 = 50"
  by (rule sqrt_of_square) simp_all

lemma round_half_even_nearest:
  assumes "of_int n - 1 / 2 < z" and "z < of_int n + 1 / 2"
  shows "round_half_even z = n"
proof -
  from assms have "\<lfloor>z\<rfloor> = n \<or> \<lfloor>z\<rfloor> = n - 1"
    by linarith
  then show ?thesis
  proof
    assume f: "\<lfloor>z\<rfloor> = n"
    with assms show ?thesis
      by (simp add: round_half_even_def Let_def)
  next
    assume f: "\<lfloor>z\<rfloor> = n - 1"
    then have "z < of_int n" by linarith
    with assms f show ?thesis
      by (simp add: round_half_even_def Let_def)
  qed
qed

lemma double_sqrt_2: "round_to_double (sqrt 2) = Num (6369051672525773 / 4503599627370496)"
proof -
  have "sqrt (4503599627370496 * 4503599627370496) = 4503599627370496"
    by (rule sqrt_of_square) simp_all
  then have scaled: "sqrt 2 * 4503599627370496 = sqrt (2 * (4503599627370496 * 4503599627370496))"
    by (simp only: real_sqrt_mult)
  have "(6369051672525773 - 1 / 2) * (6369051672525773 - 1 / 2) <
        (2 * (4503599627370496 * 4503599627370496) :: real)"
    by simp
  then have "(6369051672525773 - 1 / 2)\<^sup>2 < (2 * (4503599627370496 * 4503599627370496) :: real)"
    by (simp only: power2_eq_square)
  then have "6369051672525773 - 1 / 2 < sqrt (2 * (4503599627370496 * 4503599627370496))"
    by (rule real_less_rsqrt)
  then have lower: "of_int 6369051672525773 - 1 / 2 < sqrt 2 * 4503599627370496"
    by (simp only: scaled of_int_numeral)
  have "(2 * (4503599627370496 * 4503599627370496) :: real) <
        (6369051672525773 + 1 / 2) * (6369051672525773 + 1 / 2)"
    by simp
  then have "(2 * (4503599627370496 * 4503599627370496) :: real) < (6369051672525773 + 1 / 2)\<^sup>2"
    by (simp only: power2_eq_square)
  then have "sqrt (2 * (4503599627370496 * 4503599627370496)) < 6369051672525773 + 1 / 2"
    by (rule real_less_lsqrt [rotated]) simp
  then have upper: "sqrt 2 * 4503599627370496 < of_int 6369051672525773 + 1 / 2"
    by (simp only: scaled of_int_numeral)
  have nearest: "round_half_even (sqrt 2 * 4503599627370496) = 6369051672525773"
    using lower upper by (rule round_half_even_nearest)
  have "1 \<le> sqrt 2" "sqrt 2 < 2"
    by (simp_all add: real_less_lsqrt)
  then have exponent: "\<lfloor>log 2 (sqrt 2)\<rfloor> = 0"
    by (rule floor_log2_unit)
  have positive: "\<bar>sqrt 2\<bar> = sqrt 2" "sqrt 2 \<noteq> 0"
    by simp_all
  show ?thesis
    unfolding round_to_double_def positive exponent
    by (simp add: Let_def pow2_def nearest)
qed

lemma distance_same: "distance_deg a a = Num 0"
  by (simp add: distance_deg_def fsub_def fadd_def fmul_def is_zero_def is_inf_def signed_zero_def
      round_to_double_def)

lemma distance_3_4_origin: "distance_deg latLng_3_4 (location entry_origin) = Num 5"
  by (simp add: distance_deg_def latLng_3_4_def entry_origin_def eval_double sqrt_25)

lemma distance_30_40_origin: "distance_deg latLng_30_40 (location entry_origin) = Num 50"
  by (simp add: distance_deg_def latLng_30_40_def entry_origin_def eval_double sqrt_2500)

lemma distance_30_40_3_4: "distance_deg latLng_30_40 (location entry_3_4) = Num 45"
  by (simp add: distance_deg_def latLng_30_40_def entry_3_4_def eval_double sqrt_2025)

lemma distance_1_1_origin:
  "distance_deg latLng_1_1 (location entry_origin) = Num (6369051672525773 / 4503599627370496)"
proof -
  have "fadd (fmul (fsub (Num 1) (Num 0)) (fsub (Num 1) (Num 0)))
             (fmul (fsub (Num 1) (Num 0)) (fsub (Num 1) (Num 0))) = Num 2"
    by (simp add: eval_double)
  then show ?thesis
    by (simp add: distance_deg_def latLng_1_1_def entry_origin_def double_sqrt_2)
qed

theorem hasBuilding_first_within_threshold_witness:
  "hasBuilding manager_grid world2 latLng_3_4 (Some (Num 6)) = (Some (id' entry_origin), manager_grid, world2) \<and>
   hasBuilding manager_grid world2 latLng_3_4 (Some (Num 5)) = (Some (id' entry_3_4), manager_grid, world2) \<and>
   hasBuilding manager_grid world2 latLng_30_40 (Some (Num 6)) = (None, manager_grid, world2) \<and>
   hasBuilding manager_origin world2 latLng_1_1 (Some (Num (6369051672525773 / 4503599627370496))) =
     (None, manager_origin, world2) \<and>
   hasBuilding manager_origin world2 latLng_1_1 (Some (Num (6369051672525774 / 4503599627370496))) =
     (Some (id' entry_origin), manager_origin, world2) \<and>
   hasBuilding manager2 world2 mockLatLng1 (Some (round_to_double 0.0001)) =
     (Some (id' entry1), manager2, world2) \<and>
   hasBuilding manager2 world2 mockLatLng1 None = (Some (id' entry1), manager2, world2)"
proof -
  have len: "length (buildings manager_grid) = 2" and
    at0: "buildings manager_grid ! 0 = (id' entry_origin, entry_origin)" and
    at1: "buildings manager_grid ! 1 = (id' entry_3_4, entry_3_4)"
    by (simp_all add: manager_grid_def)
  have len_origin: "length (buildings manager_origin) = 1" and
    at_origin: "buildings manager_origin ! 0 = (id' entry_origin, entry_origin)"
    by (simp_all add: manager_origin_def)
  have len_two: "length (buildings manager2) = 2" and
    at_two: "buildings manager2 ! 0 = (id' entry1, entry1)"
    by (simp_all add: manager2_def)
  have same_3_4: "distance_deg latLng_3_4 (location entry_3_4) = Num 0"
    by (simp add: entry_3_4_def latLng_3_4_def distance_same)
  have same_1: "distance_deg mockLatLng1 (location entry1) = Num 0"
    by (simp add: entry1_def distance_same)
  have within_6: "flt (distance_deg latLng_3_4 (location entry_origin)) (Num 6)"
    by (simp add: distance_3_4_origin)
  have not_within_5: "\<not> flt (distance_deg latLng_3_4 (location entry_origin)) (Num 5)"
    by (simp add: distance_3_4_origin)
  have same_within_5: "flt (distance_deg latLng_3_4 (location entry_3_4)) (Num 5)"
    by (simp add: same_3_4)
  have far_origin: "\<not> flt (distance_deg latLng_30_40 (location entry_origin)) (Num 6)"
    by (simp add: distance_30_40_origin)
  have far_3_4: "\<not> flt (distance_deg latLng_30_40 (location entry_3_4)) (Num 6)"
    by (simp add: distance_30_40_3_4)
  have not_within_rounded:
    "\<not> flt (distance_deg latLng_1_1 (location entry_origin)) (Num (6369051672525773 / 4503599627370496))"
    by (simp add: distance_1_1_origin)
  have within_next:
    "flt (distance_deg latLng_1_1 (location entry_origin)) (Num (6369051672525774 / 4503599627370496))"
    by (simp add: distance_1_1_origin)
  have same_within: "flt (distance_deg mockLatLng1 (location entry1)) (round_to_double 0.0001)"
    unfolding same_1 double_0_0001 by simp
  have first: "hasBuilding manager_grid world2 latLng_3_4 (Some (Num 6)) =
                 (Some (id' entry_origin), manager_grid, world2)"
  proof -
    from hasBuilding_first_within_threshold [of manager_grid world2 latLng_3_4 "Num 6"]
    obtain r where run: "hasBuilding manager_grid world2 latLng_3_4 (Some (Num 6)) = (r, manager_grid, world2)"
      and r: "case r of
                Some i \<Rightarrow>
                  (\<exists>k<length (buildings manager_grid).
                     fst (buildings manager_grid ! k) = i \<and>
                     (ids_are_keys manager_grid \<longrightarrow> id' (snd (buildings manager_grid ! k)) = i) \<and>
                     flt (distance_deg latLng_3_4 (location (snd (buildings manager_grid ! k)))) (Num 6) \<and>
                     (\<forall>j<k. \<not> flt (distance_deg latLng_3_4 (location (snd (buildings manager_grid ! j)))) (Num 6)))
              | None \<Rightarrow>
                  (\<forall>k<length (buildings manager_grid).
                     \<not> flt (distance_deg latLng_3_4 (location (snd (buildings manager_grid ! k)))) (Num 6))"
      by blast
    from first_of_two [OF r len] within_6 have "r = Some (id' entry_origin)"
      by (simp only: at0 fst_conv snd_conv if_True)
    with run show ?thesis by simp
  qed
  have strict: "hasBuilding manager_grid world2 latLng_3_4 (Some (Num 5)) =
                  (Some (id' entry_3_4), manager_grid, world2)"
  proof -
    from hasBuilding_first_within_threshold [of manager_grid world2 latLng_3_4 "Num 5"]
    obtain r where run: "hasBuilding manager_grid world2 latLng_3_4 (Some (Num 5)) = (r, manager_grid, world2)"
      and r: "case r of
                Some i \<Rightarrow>
                  (\<exists>k<length (buildings manager_grid).
                     fst (buildings manager_grid ! k) = i \<and>
                     (ids_are_keys manager_grid \<longrightarrow> id' (snd (buildings manager_grid ! k)) = i) \<and>
                     flt (distance_deg latLng_3_4 (location (snd (buildings manager_grid ! k)))) (Num 5) \<and>
                     (\<forall>j<k. \<not> flt (distance_deg latLng_3_4 (location (snd (buildings manager_grid ! j)))) (Num 5)))
              | None \<Rightarrow>
                  (\<forall>k<length (buildings manager_grid).
                     \<not> flt (distance_deg latLng_3_4 (location (snd (buildings manager_grid ! k)))) (Num 5))"
      by blast
    from first_of_two [OF r len] not_within_5 same_within_5 have "r = Some (id' entry_3_4)"
      by (simp only: at0 at1 fst_conv snd_conv if_True if_False)
    with run show ?thesis by simp
  qed
  have far: "hasBuilding manager_grid world2 latLng_30_40 (Some (Num 6)) = (None, manager_grid, world2)"
  proof -
    from hasBuilding_first_within_threshold [of manager_grid world2 latLng_30_40 "Num 6"]
    obtain r where run: "hasBuilding manager_grid world2 latLng_30_40 (Some (Num 6)) = (r, manager_grid, world2)"
      and r: "case r of
                Some i \<Rightarrow>
                  (\<exists>k<length (buildings manager_grid).
                     fst (buildings manager_grid ! k) = i \<and>
                     (ids_are_keys manager_grid \<longrightarrow> id' (snd (buildings manager_grid ! k)) = i) \<and>
                     flt (distance_deg latLng_30_40 (location (snd (buildings manager_grid ! k)))) (Num 6) \<and>
                     (\<forall>j<k. \<not> flt (distance_deg latLng_30_40 (location (snd (buildings manager_grid ! j)))) (Num 6)))
              | None \<Rightarrow>
                  (\<forall>k<length (buildings manager_grid).
                     \<not> flt (distance_deg latLng_30_40 (location (snd (buildings manager_grid ! k)))) (Num 6))"
      by blast
    from first_of_two [OF r len] far_origin far_3_4 have "r = None"
      by (simp only: at0 at1 fst_conv snd_conv if_False)
    with run show ?thesis by simp
  qed
  have rounded: "hasBuilding manager_origin world2 latLng_1_1
                   (Some (Num (6369051672525773 / 4503599627370496))) = (None, manager_origin, world2)"
  proof -
    from hasBuilding_first_within_threshold
      [of manager_origin world2 latLng_1_1 "Num (6369051672525773 / 4503599627370496)"]
    obtain r where run: "hasBuilding manager_origin world2 latLng_1_1
                           (Some (Num (6369051672525773 / 4503599627370496))) = (r, manager_origin, world2)"
      and r: "case r of
                Some i \<Rightarrow>
                  (\<exists>k<length (buildings manager_origin).
                     fst (buildings manager_origin ! k) = i \<and>
                     (ids_are_keys manager_origin \<longrightarrow> id' (snd (buildings manager_origin ! k)) = i) \<and>
                     flt (distance_deg latLng_1_1 (location (snd (buildings manager_origin ! k))))
                       (Num (6369051672525773 / 4503599627370496)) \<and>
                     (\<forall>j<k. \<not> flt (distance_deg latLng_1_1 (location (snd (buildings manager_origin ! j))))
                                 (Num (6369051672525773 / 4503599627370496))))
              | None \<Rightarrow>
                  (\<forall>k<length (buildings manager_origin).
                     \<not> flt (distance_deg latLng_1_1 (location (snd (buildings manager_origin ! k))))
                         (Num (6369051672525773 / 4503599627370496)))"
      by blast
    from first_of_one [OF r len_origin] not_within_rounded have "r = None"
      by (simp only: at_origin fst_conv snd_conv if_False)
    with run show ?thesis by simp
  qed
  have next_double: "hasBuilding manager_origin world2 latLng_1_1
                       (Some (Num (6369051672525774 / 4503599627370496))) =
                       (Some (id' entry_origin), manager_origin, world2)"
  proof -
    from hasBuilding_first_within_threshold
      [of manager_origin world2 latLng_1_1 "Num (6369051672525774 / 4503599627370496)"]
    obtain r where run: "hasBuilding manager_origin world2 latLng_1_1
                           (Some (Num (6369051672525774 / 4503599627370496))) = (r, manager_origin, world2)"
      and r: "case r of
                Some i \<Rightarrow>
                  (\<exists>k<length (buildings manager_origin).
                     fst (buildings manager_origin ! k) = i \<and>
                     (ids_are_keys manager_origin \<longrightarrow> id' (snd (buildings manager_origin ! k)) = i) \<and>
                     flt (distance_deg latLng_1_1 (location (snd (buildings manager_origin ! k))))
                       (Num (6369051672525774 / 4503599627370496)) \<and>
                     (\<forall>j<k. \<not> flt (distance_deg latLng_1_1 (location (snd (buildings manager_origin ! j))))
                                 (Num (6369051672525774 / 4503599627370496))))
              | None \<Rightarrow>
                  (\<forall>k<length (buildings manager_origin).
                     \<not> flt (distance_deg latLng_1_1 (location (snd (buildings manager_origin ! k))))
                         (Num (6369051672525774 / 4503599627370496)))"
      by blast
    from first_of_one [OF r len_origin] within_next have "r = Some (id' entry_origin)"
      by (simp only: at_origin fst_conv snd_conv if_True)
    with run show ?thesis by simp
  qed
  have same: "hasBuilding manager2 world2 mockLatLng1 (Some (round_to_double 0.0001)) =
                (Some (id' entry1), manager2, world2)"
  proof -
    from hasBuilding_first_within_threshold [of manager2 world2 mockLatLng1 "round_to_double 0.0001"]
    obtain r where run: "hasBuilding manager2 world2 mockLatLng1 (Some (round_to_double 0.0001)) =
                           (r, manager2, world2)"
      and r: "case r of
                Some i \<Rightarrow>
                  (\<exists>k<length (buildings manager2).
                     fst (buildings manager2 ! k) = i \<and>
                     (ids_are_keys manager2 \<longrightarrow> id' (snd (buildings manager2 ! k)) = i) \<and>
                     flt (distance_deg mockLatLng1 (location (snd (buildings manager2 ! k))))
                       (round_to_double 0.0001) \<and>
                     (\<forall>j<k. \<not> flt (distance_deg mockLatLng1 (location (snd (buildings manager2 ! j))))
                                 (round_to_double 0.0001)))
              | None \<Rightarrow>
                  (\<forall>k<length (buildings manager2).
                     \<not> flt (distance_deg mockLatLng1 (location (snd (buildings manager2 ! k))))
                         (round_to_double 0.0001))"
      by blast
    from first_of_two [OF r len_two] same_within have "r = Some (id' entry1)"
      by (simp only: at_two fst_conv snd_conv if_True)
    with run show ?thesis by simp
  qed
  from hasBuilding_first_within_threshold [of manager2 world2 mockLatLng1 "round_to_double 0.0001"]
  have "hasBuilding manager2 world2 mockLatLng1 None =
          hasBuilding manager2 world2 mockLatLng1 (Some (round_to_double 0.0001))"
    by blast
  with same have default: "hasBuilding manager2 world2 mockLatLng1 None = (Some (id' entry1), manager2, world2)"
    by (simp only:)
  from first strict far rounded next_double same default show ?thesis
    by (simp only: simp_thms)
qed

section \<open>Change notification\<close>

lemma Map_get_Map_delete_same: "Map_get (Map_delete k kvs) k = None"
  by (auto simp add: Map_get_None_iff Map_delete_def)

lemma Map_get_Map_delete_other: "k' \<noteq> k \<Longrightarrow> Map_get (Map_delete k kvs) k' = Map_get kvs k'"
  by (induction kvs) (auto simp add: Map_delete_def)

lemma addBuilding_eq:
  "addBuilding m w now insights loc addr cfg nick =
     (generateId now loc,
      m\<lparr>buildings :=
          Map_set (generateId now loc)
            \<lparr>id' = generateId now loc, buildingInsights = insights, configId = dflt 0 cfg,
             location = loc, address = addr,
             nickname = Some (case nick of None \<Rightarrow> generateNickname addr
                               | Some n \<Rightarrow> if n = [] then generateNickname addr else n),
             boundary = None, panels = [], isActive = True\<rparr>
            (buildings m)\<rparr>,
      if onUpdateCallback m
      then w\<lparr>onUpdate_calls := onUpdate_calls w @
             [Map_values (Map_set (generateId now loc)
                \<lparr>id' = generateId now loc, buildingInsights = insights, configId = dflt 0 cfg,
                 location = loc, address = addr,
                 nickname = Some (case nick of None \<Rightarrow> generateNickname addr
                                   | Some n \<Rightarrow> if n = [] then generateNickname addr else n),
                 boundary = None, panels = [], isActive = True\<rparr>
                (buildings m))]\<rparr>
      else w)"
  by (simp add: addBuilding_def notifyUpdate_eq Let_def)

lemma removeBuilding_live:
  "Map_get (buildings m) i = Some b \<Longrightarrow>
   removeBuilding m w i =
     (True, m\<lparr>buildings := Map_delete i (buildings m)\<rparr>,
      if onUpdateCallback m
      then (cleanUp b w)\<lparr>onUpdate_calls := onUpdate_calls (cleanUp b w) @ [Map_values (Map_delete i (buildings m))]\<rparr>
      else cleanUp b w)"
  by (simp add: removeBuilding_def notifyUpdate_eq Let_def)

lemma update_live:
  assumes "Map_get (buildings m) i = Some b"
  shows "updateBuildingConfig m w i cfg =
           (True, m\<lparr>buildings := Map_set i (b\<lparr>configId := cfg\<rparr>) (buildings m)\<rparr>,
            if onUpdateCallback m
            then w\<lparr>onUpdate_calls := onUpdate_calls w @ [Map_values (Map_set i (b\<lparr>configId := cfg\<rparr>) (buildings m))]\<rparr>
            else w)"
    and "updateBuildingNickname m w i nick =
           (True, m\<lparr>buildings := Map_set i (b\<lparr>nickname := Some nick\<rparr>) (buildings m)\<rparr>,
            if onUpdateCallback m
            then w\<lparr>onUpdate_calls := onUpdate_calls w @ [Map_values (Map_set i (b\<lparr>nickname := Some nick\<rparr>) (buildings m))]\<rparr>
            else w)"
    and "toggleBuildingActive m w i =
           (True, m\<lparr>buildings := Map_set i (b\<lparr>isActive := \<not> isActive b\<rparr>) (buildings m)\<rparr>,
            if onUpdateCallback m
            then w\<lparr>onUpdate_calls := onUpdate_calls w @ [Map_values (Map_set i (b\<lparr>isActive := \<not> isActive b\<rparr>) (buildings m))]\<rparr>
            else w)"
    and "setBuildingPanels m w i ps = (True, m\<lparr>buildings := Map_set i (b\<lparr>panels := ps\<rparr>) (buildings m)\<rparr>, w)"
    and "setBuildingBoundary m w i p = (True, m\<lparr>buildings := Map_set i (b\<lparr>boundary := Some p\<rparr>) (buildings m)\<rparr>, w)"
  using assms
  by (simp_all add: updateBuildingConfig_def updateBuildingNickname_def toggleBuildingActive_def
      setBuildingPanels_def setBuildingBoundary_def notifyUpdate_eq Let_def)

lemma setMap_null_calls_log [simp]: "onUpdate_calls (setMap_null p w) = onUpdate_calls w"
  by (simp add: setMap_null_def)

lemma cleanUp_panels_log: "onUpdate_calls (foldl (\<lambda>w' panel. setMap_null panel w') w ps) = onUpdate_calls w"
  by (induction ps arbitrary: w) simp_all

lemma cleanUp_log [simp]: "onUpdate_calls (cleanUp b w) = onUpdate_calls w"
  by (simp add: cleanUp_def cleanUp_panels_log Let_def split: option.splits)

lemma cleanUp_all_log [simp]:
  "onUpdate_calls (foldl (\<lambda>w' building. cleanUp building w') w bs) = onUpdate_calls w"
  by (induction bs arbitrary: w) simp_all

lemma clear_eq:
  "clear m w =
     ((), m\<lparr>buildings := []\<rparr>,
      if onUpdateCallback m
      then (foldl (\<lambda>w' building. cleanUp building w') w (Map_values (buildings m)))
             \<lparr>onUpdate_calls := onUpdate_calls w @ [[]]\<rparr>
      else foldl (\<lambda>w' building. cleanUp building w') w (Map_values (buildings m)))"
  by (simp add: clear_def notifyUpdate_eq Let_def Map_values_def)

lemma setter_never_notifies:
  "onUpdate_calls (snd (snd (setBuildingPanels m w j ps))) = onUpdate_calls w"
  "onUpdate_calls (snd (snd (setBuildingBoundary m w j p))) = onUpdate_calls w"
  by (simp_all add: setBuildingPanels_def setBuildingBoundary_def split: option.splits)

lemma query_never_notifies:
  "onUpdate_calls (snd (snd (getBuilding m w j))) = onUpdate_calls w"
  "onUpdate_calls (snd (snd (getAllBuildings m w))) = onUpdate_calls w"
  "onUpdate_calls (snd (snd (getActiveBuildings m w))) = onUpdate_calls w"
  "onUpdate_calls (snd (snd (hasBuilding m w loc t))) = onUpdate_calls w"
  "onUpdate_calls (snd (snd (getAggregatedData m w r d))) = onUpdate_calls w"
  by (simp_all add: getBuilding_def getAllBuildings_def getActiveBuildings_def hasBuilding_def
      getAggregatedData_def split: sum.splits prod.splits)

text \<open>
  Claim C2, amended. For every state of a manager constructed with a callback, each call of
  \<^verbatim>\<open>addBuilding\<close> and of \<^verbatim>\<open>clear\<close> (on every state, the newly constructed manager
  included), and each call of \<^verbatim>\<open>removeBuilding\<close>, \<^verbatim>\<open>updateBuildingConfig\<close>,
  \<^verbatim>\<open>updateBuildingNickname\<close> and \<^verbatim>\<open>toggleBuildingActive\<close> on a live id, invokes the
  callback exactly once (the log of invocations grows by one element), passing the list of
  all entries after the mutation, in insertion order.
  \<^verbatim>\<open>getBuilding\<close>, \<^verbatim>\<open>getAllBuildings\<close>, \<^verbatim>\<open>getActiveBuildings\<close>, \<^verbatim>\<open>hasBuilding\<close>,
  \<^verbatim>\<open>getAggregatedData\<close>, \<^verbatim>\<open>setBuildingPanels\<close> and \<^verbatim>\<open>setBuildingBoundary\<close> never invoke
  it, on any state and any id, with or without a callback. When no callback was registered
  the log stays as it was and every mutation still takes effect: the added entry is live,
  the cleared map is empty, and on a live id the removed id is absent and the updated field
  has its new value. Only the four operations that take the id of an entry are restricted
  to a live id.
\<close>

theorem notifyUpdate_once_per_mutation:
  "(onUpdateCallback m \<longrightarrow>
      (case addBuilding m w now insights loc addr cfg nick of
         (r, m', w') \<Rightarrow> onUpdate_calls w' = onUpdate_calls w @ [fst (getAllBuildings m' w')]) \<and>
      (case clear m w of
         (u, m', w') \<Rightarrow> onUpdate_calls w' = onUpdate_calls w @ [fst (getAllBuildings m' w')]) \<and>
      (Map_get (buildings m) i = Some b \<longrightarrow>
         (case removeBuilding m w i of
            (r, m', w') \<Rightarrow> r \<and> onUpdate_calls w' = onUpdate_calls w @ [fst (getAllBuildings m' w')]) \<and>
         (case updateBuildingConfig m w i c of
            (r, m', w') \<Rightarrow> r \<and> onUpdate_calls w' = onUpdate_calls w @ [fst (getAllBuildings m' w')]) \<and>
         (case updateBuildingNickname m w i n of
            (r, m', w') \<Rightarrow> r \<and> onUpdate_calls w' = onUpdate_calls w @ [fst (getAllBuildings m' w')]) \<and>
         (case toggleBuildingActive m w i of
            (r, m', w') \<Rightarrow> r \<and> onUpdate_calls w' = onUpdate_calls w @ [fst (getAllBuildings m' w')]))) \<and>
   onUpdate_calls (snd (snd (getBuilding m w j))) = onUpdate_calls w \<and>
   onUpdate_calls (snd (snd (getAllBuildings m w))) = onUpdate_calls w \<and>
   onUpdate_calls (snd (snd (getActiveBuildings m w))) = onUpdate_calls w \<and>
   onUpdate_calls (snd (snd (hasBuilding m w loc t))) = onUpdate_calls w \<and>
   onUpdate_calls (snd (snd (getAggregatedData m w ratio derate))) = onUpdate_calls w \<and>
   onUpdate_calls (snd (snd (setBuildingPanels m w j ps))) = onUpdate_calls w \<and>
   onUpdate_calls (snd (snd (setBuildingBoundary m w j p))) = onUpdate_calls w \<and>
   (\<not> onUpdateCallback m \<longrightarrow>
      (case addBuilding m w now insights loc addr cfg nick of
         (r, m', w') \<Rightarrow> onUpdate_calls w' = onUpdate_calls w \<and>
            (\<exists>e. fst (getBuilding m' w' r) = Some e \<and> isActive e \<and> address e = addr)) \<and>
      (case clear m w of
         (u, m', w') \<Rightarrow> onUpdate_calls w' = onUpdate_calls w \<and> fst (getAllBuildings m' w') = []) \<and>
      (Map_get (buildings m) i = Some b \<longrightarrow>
         (case removeBuilding m w i of
            (r, m', w') \<Rightarrow> r \<and> onUpdate_calls w' = onUpdate_calls w \<and> fst (getBuilding m' w' i) = None) \<and>
         (case updateBuildingConfig m w i c of
            (r, m', w') \<Rightarrow> r \<and> onUpdate_calls w' = onUpdate_calls w \<and>
               fst (getBuilding m' w' i) = Some (b\<lparr>configId := c\<rparr>)) \<and>
         (case updateBuildingNickname m w i n of
            (r, m', w') \<Rightarrow> r \<and> onUpdate_calls w' = onUpdate_calls w \<and>
               fst (getBuilding m' w' i) = Some (b\<lparr>nickname := Some n\<rparr>)) \<and>
         (case toggleBuildingActive m w i of
            (r, m', w') \<Rightarrow> r \<and> onUpdate_calls w' = onUpdate_calls w \<and>
               fst (getBuilding m' w' i) = Some (b\<lparr>isActive := \<not> isActive b\<rparr>))))"
proof -
  have with_callback:
    "(onUpdateCallback m \<longrightarrow>
      (case addBuilding m w now insights loc addr cfg nick of
         (r, m', w') \<Rightarrow> onUpdate_calls w' = onUpdate_calls w @ [fst (getAllBuildings m' w')]) \<and>
      (case clear m w of
         (u, m', w') \<Rightarrow> onUpdate_calls w' = onUpdate_calls w @ [fst (getAllBuildings m' w')]) \<and>
      (Map_get (buildings m) i = Some b \<longrightarrow>
         (case removeBuilding m w i of
            (r, m', w') \<Rightarrow> r \<and> onUpdate_calls w' = onUpdate_calls w @ [fst (getAllBuildings m' w')]) \<and>
         (case updateBuildingConfig m w i c of
            (r, m', w') \<Rightarrow> r \<and> onUpdate_calls w' = onUpdate_calls w @ [fst (getAllBuildings m' w')]) \<and>
         (case updateBuildingNickname m w i n of
            (r, m', w') \<Rightarrow> r \<and> onUpdate_calls w' = onUpdate_calls w @ [fst (getAllBuildings m' w')]) \<and>
         (case toggleBuildingActive m w i of
            (r, m', w') \<Rightarrow> r \<and> onUpdate_calls w' = onUpdate_calls w @ [fst (getAllBuildings m' w')])))"
    by (simp add: addBuilding_eq clear_eq removeBuilding_live update_live getAllBuildings_def
        Map_values_def)
  have without_callback:
    "(\<not> onUpdateCallback m \<longrightarrow>
      (case addBuilding m w now insights loc addr cfg nick of
         (r, m', w') \<Rightarrow> onUpdate_calls w' = onUpdate_calls w \<and>
            (\<exists>e. fst (getBuilding m' w' r) = Some e \<and> isActive e \<and> address e = addr)) \<and>
      (case clear m w of
         (u, m', w') \<Rightarrow> onUpdate_calls w' = onUpdate_calls w \<and> fst (getAllBuildings m' w') = []) \<and>
      (Map_get (buildings m) i = Some b \<longrightarrow>
         (case removeBuilding m w i of
            (r, m', w') \<Rightarrow> r \<and> onUpdate_calls w' = onUpdate_calls w \<and> fst (getBuilding m' w' i) = None) \<and>
         (case updateBuildingConfig m w i c of
            (r, m', w') \<Rightarrow> r \<and> onUpdate_calls w' = onUpdate_calls w \<and>
               fst (getBuilding m' w' i) = Some (b\<lparr>configId := c\<rparr>)) \<and>
         (case updateBuildingNickname m w i n of
            (r, m', w') \<Rightarrow> r \<and> onUpdate_calls w' = onUpdate_calls w \<and>
               fst (getBuilding m' w' i) = Some (b\<lparr>nickname := Some n\<rparr>)) \<and>
         (case toggleBuildingActive m w i of
            (r, m', w') \<Rightarrow> r \<and> onUpdate_calls w' = onUpdate_calls w \<and>
               fst (getBuilding m' w' i) = Some (b\<lparr>isActive := \<not> isActive b\<rparr>))))"
    by (simp add: addBuilding_eq clear_eq removeBuilding_live update_live getAllBuildings_def
        getBuilding_def Map_values_def Map_get_Map_set_same Map_get_Map_delete_same)
  show ?thesis
    by (intro conjI with_callback without_callback query_never_notifies setter_never_notifies)
qed

theorem notifyUpdate_once_per_mutation_witness:
  "onUpdateCallback (new_MultiBuildingManager True) \<and>
   onUpdate_calls (snd (snd (addBuilding (new_MultiBuildingManager True) world0 1700000000000
      mockBuildingInsights mockLatLng1 ''Building 1'' (Some 0) None))) = [[entry1]] \<and>
   onUpdate_calls (snd (snd (clear (new_MultiBuildingManager True) world0))) = [[]] \<and>
   onUpdate_calls (snd (snd (getAllBuildings (new_MultiBuildingManager True) world0))) = [] \<and>
   onUpdate_calls (snd (snd (setBuildingPanels (new_MultiBuildingManager True) world0 (id' entry1) [1, 2]))) = [] \<and>
   \<not> onUpdateCallback (new_MultiBuildingManager False) \<and>
   onUpdate_calls (snd (snd (addBuilding (new_MultiBuildingManager False) world0 1700000000000
      mockBuildingInsights mockLatLng1 ''Building 1'' (Some 0) None))) = [] \<and>
   buildings (fst (snd (addBuilding (new_MultiBuildingManager False) world0 1700000000000
      mockBuildingInsights mockLatLng1 ''Building 1'' (Some 0) None))) = [(id' entry1, entry1)] \<and>
   Map_get (buildings manager2) (id' entry1) = Some entry1 \<and>
   onUpdateCallback manager2 \<and>
   onUpdate_calls (snd (snd (removeBuilding manager2 world2 (id' entry1)))) =
     onUpdate_calls world2 @ [[entry2]] \<and>
   onUpdate_calls (snd (snd (toggleBuildingActive manager2 world2 (id' entry1)))) =
     onUpdate_calls world2 @ [[entry1\<lparr>isActive := False\<rparr>, entry2]] \<and>
   onUpdate_calls (snd (snd (updateBuildingConfig manager2 world2 (id' entry1) 2))) =
     onUpdate_calls world2 @ [[entry1\<lparr>configId := 2\<rparr>, entry2]] \<and>
   onUpdate_calls (snd (snd (clear manager2 world2))) = onUpdate_calls world2 @ [[]] \<and>
   onUpdate_calls (snd (snd (setBuildingPanels manager2 world2 (id' entry1) [1, 2]))) =
     onUpdate_calls world2 \<and>
   Map_get (buildings (manager2\<lparr>onUpdateCallback := False\<rparr>)) (id' entry1) = Some entry1 \<and>
   \<not> onUpdateCallback (manager2\<lparr>onUpdateCallback := False\<rparr>) \<and>
   onUpdate_calls (snd (snd (removeBuilding (manager2\<lparr>onUpdateCallback := False\<rparr>) world2 (id' entry1)))) =
     onUpdate_calls world2 \<and>
   fst (getBuilding
          (fst (snd (removeBuilding (manager2\<lparr>onUpdateCallback := False\<rparr>) world2 (id' entry1))))
          (snd (snd (removeBuilding (manager2\<lparr>onUpdateCallback := False\<rparr>) world2 (id' entry1))))
          (id' entry1)) = None \<and>
   buildings (fst (snd (removeBuilding (manager2\<lparr>onUpdateCallback := False\<rparr>) world2 (id' entry1)))) =
     [(id' entry2, entry2)]"
proof -
  let ?quiet = "manager2\<lparr>onUpdateCallback := False\<rparr>"
  let ?add = "addBuilding (new_MultiBuildingManager True) world0 1700000000000
      mockBuildingInsights mockLatLng1 ''Building 1'' (Some 0) None"
  let ?add_quiet = "addBuilding (new_MultiBuildingManager False) world0 1700000000000
      mockBuildingInsights mockLatLng1 ''Building 1'' (Some 0) None"
  have live: "Map_get (buildings manager2) (id' entry1) = Some entry1"
    by (simp add: manager2_def)
  have live': "Map_get (buildings ?quiet) (id' entry1) = Some entry1"
    by (simp add: manager2_def)
  have callback: "onUpdateCallback manager2" and no_callback: "\<not> onUpdateCallback ?quiet"
    by (simp_all add: manager2_def)
  have new_callback: "onUpdateCallback (new_MultiBuildingManager True)"
    and new_no_callback: "\<not> onUpdateCallback (new_MultiBuildingManager False)"
    by (simp_all add: new_MultiBuildingManager_def)
  have empty_log: "onUpdate_calls world0 = []"
    by (simp add: world0_def)
  have active: "isActive entry1"
    by (simp add: entry1_def)
  have after_add: "buildings (fst (snd ?add)) = [(id' entry1, entry1)]"
    by (simp add: add_entry1)
  have after_add_quiet: "buildings (fst (snd ?add_quiet)) = [(id' entry1, entry1)]"
    unfolding addBuilding_def id_entry1 nickname_entry1
    by (simp add: new_MultiBuildingManager_def notifyUpdate_eq dflt_def entry1_def Let_def)
  have after_new_clear: "buildings (fst (snd (clear (new_MultiBuildingManager True) world0))) = []"
    by (simp add: clear_eq)
  have after_remove:
    "buildings (fst (snd (removeBuilding manager2 world2 (id' entry1)))) = [(id' entry2, entry2)]"
    "buildings (fst (snd (removeBuilding ?quiet world2 (id' entry1)))) = [(id' entry2, entry2)]"
    using ids_differ
    by (simp_all add: removeBuilding_live [OF live] removeBuilding_live [OF live'])
      (simp_all add: manager2_def Map_delete_def)
  have after_toggle:
    "buildings (fst (snd (toggleBuildingActive manager2 world2 (id' entry1)))) =
       [(id' entry1, entry1\<lparr>isActive := False\<rparr>), (id' entry2, entry2)]"
    using active by (simp add: update_live [OF live]) (simp add: manager2_def)
  have after_update:
    "buildings (fst (snd (updateBuildingConfig manager2 world2 (id' entry1) 2))) =
       [(id' entry1, entry1\<lparr>configId := 2\<rparr>), (id' entry2, entry2)]"
    by (simp add: update_live [OF live]) (simp add: manager2_def)
  have after_clear: "buildings (fst (snd (clear manager2 world2))) = []"
    by (simp add: clear_eq)
  note fresh =
    notifyUpdate_once_per_mutation [where m = "new_MultiBuildingManager True" and w = world0 and
      now = 1700000000000 and insights = mockBuildingInsights and loc = mockLatLng1 and
      addr = "''Building 1''" and cfg = "Some 0" and nick = None and i = "id' entry1" and
      b = entry1 and c = 2 and n = "[]" and j = "id' entry1" and t = None and ratio = None and
      derate = None and ps = "[1, 2]" and p = 0, unfolded case_prod_beta]
  note fresh_quiet =
    notifyUpdate_once_per_mutation [where m = "new_MultiBuildingManager False" and w = world0 and
      now = 1700000000000 and insights = mockBuildingInsights and loc = mockLatLng1 and
      addr = "''Building 1''" and cfg = "Some 0" and nick = None and i = "id' entry1" and
      b = entry1 and c = 2 and n = "[]" and j = "id' entry1" and t = None and ratio = None and
      derate = None and ps = "[1, 2]" and p = 0, unfolded case_prod_beta]
  note loud =
    notifyUpdate_once_per_mutation [where m = manager2 and i = "id' entry1" and b = entry1 and
      w = world2 and now = 0 and
      insights = mockBuildingInsights and loc = mockLatLng1 and addr = "[]" and cfg = None and
      nick = None and c = 2 and n = "[]" and j = "id' entry1" and t = None and ratio = None and
      derate = None and ps = "[1, 2]" and p = 0, unfolded case_prod_beta]
  note quiet =
    notifyUpdate_once_per_mutation [where m = ?quiet and i = "id' entry1" and b = entry1 and
      w = world2 and now = 0 and
      insights = mockBuildingInsights and loc = mockLatLng1 and addr = "[]" and cfg = None and
      nick = None and c = 2 and n = "[]" and j = "id' entry1" and t = None and ratio = None and
      derate = None and ps = "[1, 2]" and p = 0, unfolded case_prod_beta]
  from fresh new_callback have
    "onUpdate_calls (snd (snd ?add)) =
       onUpdate_calls world0 @ [fst (getAllBuildings (fst (snd ?add)) (snd (snd ?add)))]"
    "onUpdate_calls (snd (snd (clear (new_MultiBuildingManager True) world0))) =
       onUpdate_calls world0 @
         [fst (getAllBuildings (fst (snd (clear (new_MultiBuildingManager True) world0)))
                 (snd (snd (clear (new_MultiBuildingManager True) world0))))]"
    "onUpdate_calls (snd (snd (getAllBuildings (new_MultiBuildingManager True) world0))) =
       onUpdate_calls world0"
    "onUpdate_calls (snd (snd (setBuildingPanels (new_MultiBuildingManager True) world0 (id' entry1) [1, 2]))) =
       onUpdate_calls world0"
    by blast+
  then have on_new:
    "onUpdate_calls (snd (snd ?add)) = [[entry1]]"
    "onUpdate_calls (snd (snd (clear (new_MultiBuildingManager True) world0))) = [[]]"
    "onUpdate_calls (snd (snd (getAllBuildings (new_MultiBuildingManager True) world0))) = []"
    "onUpdate_calls (snd (snd (setBuildingPanels (new_MultiBuildingManager True) world0 (id' entry1) [1, 2]))) = []"
    by (simp_all add: getAllBuildings_def Map_values_def after_add after_new_clear empty_log)
  from fresh_quiet new_no_callback have
    "onUpdate_calls (snd (snd ?add_quiet)) = onUpdate_calls world0"
    by blast
  then have on_new_quiet: "onUpdate_calls (snd (snd ?add_quiet)) = []"
    by (simp add: empty_log)
  from loud callback live have
    "onUpdate_calls (snd (snd (removeBuilding manager2 world2 (id' entry1)))) =
       onUpdate_calls world2 @
         [fst (getAllBuildings (fst (snd (removeBuilding manager2 world2 (id' entry1))))
                 (snd (snd (removeBuilding manager2 world2 (id' entry1)))))]"
    "onUpdate_calls (snd (snd (toggleBuildingActive manager2 world2 (id' entry1)))) =
       onUpdate_calls world2 @
         [fst (getAllBuildings (fst (snd (toggleBuildingActive manager2 world2 (id' entry1))))
                 (snd (snd (toggleBuildingActive manager2 world2 (id' entry1)))))]"
    "onUpdate_calls (snd (snd (updateBuildingConfig manager2 world2 (id' entry1) 2))) =
       onUpdate_calls world2 @
         [fst (getAllBuildings (fst (snd (updateBuildingConfig manager2 world2 (id' entry1) 2)))
                 (snd (snd (updateBuildingConfig manager2 world2 (id' entry1) 2))))]"
    "onUpdate_calls (snd (snd (clear manager2 world2))) =
       onUpdate_calls world2 @
         [fst (getAllBuildings (fst (snd (clear manager2 world2))) (snd (snd (clear manager2 world2))))]"
    "onUpdate_calls (snd (snd (setBuildingPanels manager2 world2 (id' entry1) [1, 2]))) =
       onUpdate_calls world2"
    by blast+
  then have with_callback:
    "onUpdate_calls (snd (snd (removeBuilding manager2 world2 (id' entry1)))) =
       onUpdate_calls world2 @ [[entry2]]"
    "onUpdate_calls (snd (snd (toggleBuildingActive manager2 world2 (id' entry1)))) =
       onUpdate_calls world2 @ [[entry1\<lparr>isActive := False\<rparr>, entry2]]"
    "onUpdate_calls (snd (snd (updateBuildingConfig manager2 world2 (id' entry1) 2))) =
       onUpdate_calls world2 @ [[entry1\<lparr>configId := 2\<rparr>, entry2]]"
    "onUpdate_calls (snd (snd (clear manager2 world2))) = onUpdate_calls world2 @ [[]]"
    "onUpdate_calls (snd (snd (setBuildingPanels manager2 world2 (id' entry1) [1, 2]))) =
       onUpdate_calls world2"
    by (simp_all add: getAllBuildings_def Map_values_def after_remove after_toggle after_update after_clear)
  from quiet no_callback live' have without_callback:
    "onUpdate_calls (snd (snd (removeBuilding ?quiet world2 (id' entry1)))) = onUpdate_calls world2"
    "fst (getBuilding (fst (snd (removeBuilding ?quiet world2 (id' entry1))))
            (snd (snd (removeBuilding ?quiet world2 (id' entry1)))) (id' entry1)) = None"
    by blast+
  from new_callback new_no_callback on_new on_new_quiet after_add_quiet live live' callback
    no_callback with_callback without_callback after_remove(2)
  show ?thesis
    by (simp only: simp_thms)
qed

text \<open>
  As stated, the claim fails: with a callback registered, \<^verbatim>\<open>updateBuildingConfig\<close> on an id
  that no live entry holds returns \<^verbatim>\<open>false\<close> and does not invoke the callback.
\<close>

theorem notifyUpdate_counterexample:
  "onUpdateCallback manager2 \<and>
   updateBuildingConfig manager2 world2 ''building_0.000000_0.000000_0'' 2 = (False, manager2, world2) \<and>
   length (onUpdate_calls (snd (snd (updateBuildingConfig manager2 world2 ''building_0.000000_0.000000_0'' 2))))
     = length (onUpdate_calls world2)"
  by (simp add: updateBuildingConfig_def manager2_def entry1_def entry2_def)

section \<open>The generated nickname\<close>

lemma split_comma_0_spec:
  "CHR '','' \<notin> set (split_comma_0 s) \<and>
   (\<exists>rest. s = split_comma_0 s @ rest \<and> (rest = [] \<or> hd rest = CHR '',''))"
proof -
  have "CHR '','' \<notin> set (split_comma_0 s)"
    by (auto simp add: split_comma_0_def dest: set_takeWhileD)
  moreover have "s = split_comma_0 s @ dropWhile (\<lambda>c. c \<noteq> CHR '','') s"
    by (simp add: split_comma_0_def)
  moreover have "dropWhile (\<lambda>c. c \<noteq> CHR '','') s = [] \<or> hd (dropWhile (\<lambda>c. c \<noteq> CHR '','') s) = CHR '',''"
    using hd_dropWhile [of "\<lambda>c. c \<noteq> CHR '',''" s] by blast
  ultimately show ?thesis by blast
qed

lemma trim_spec:
  "\<exists>l r. s = l @ trim s @ r \<and> (\<forall>c\<in>set l. isWhiteSpace c) \<and> (\<forall>c\<in>set r. isWhiteSpace c) \<and>
         (trim s \<noteq> [] \<longrightarrow> \<not> isWhiteSpace (hd (trim s)) \<and> \<not> isWhiteSpace (last (trim s)))"
proof -
  let ?t = "dropWhile isWhiteSpace s"
  let ?l = "takeWhile isWhiteSpace s"
  let ?r = "rev (takeWhile isWhiteSpace (rev ?t))"
  have s: "s = ?l @ ?t" by simp
  have "trim s @ ?r = rev (takeWhile isWhiteSpace (rev ?t) @ dropWhile isWhiteSpace (rev ?t))"
    unfolding trim_def by (rule rev_append [symmetric])
  then have t: "?t = trim s @ ?r"
    by simp
  have l: "\<forall>c\<in>set ?l. isWhiteSpace c"
    by (auto dest: set_takeWhileD)
  have r: "\<forall>c\<in>set ?r. isWhiteSpace c"
    by (auto dest: set_takeWhileD)
  have ends: "\<not> isWhiteSpace (hd (trim s)) \<and> \<not> isWhiteSpace (last (trim s))" if ne: "trim s \<noteq> []"
  proof
    from ne t have "?t \<noteq> []" by (metis Nil_is_append_conv)
    then have "\<not> isWhiteSpace (hd ?t)" by (rule hd_dropWhile)
    moreover from ne have "hd ?t = hd (trim s)" by (subst t) simp
    ultimately show "\<not> isWhiteSpace (hd (trim s))" by simp
    from ne have "dropWhile isWhiteSpace (rev ?t) \<noteq> []" by (simp add: trim_def)
    then have "\<not> isWhiteSpace (hd (dropWhile isWhiteSpace (rev ?t)))" by (rule hd_dropWhile)
    moreover from ne have "last (trim s) = hd (dropWhile isWhiteSpace (rev ?t))"
      by (simp add: trim_def last_rev)
    ultimately show "\<not> isWhiteSpace (last (trim s))" by simp
  qed
  from s t have "s = ?l @ trim s @ ?r" by simp
  with l r ends show ?thesis by blast
qed

lemma match_number_letter_none: "\<forall>c\<in>set s. \<not> isDigit c \<Longrightarrow> match_number_letter s = None"
  by (induction s) simp_all

lemma match_number_letter_run:
  assumes "ds \<noteq> []" and "\<forall>c\<in>set ds. isDigit c" and "rest = [] \<or> \<not> isDigit (hd rest)"
  shows "match_number_letter (ds @ rest) =
           Some (ds @ (if rest \<noteq> [] \<and> isLetter (hd rest) then [hd rest] else []))"
proof -
  from assms(1) obtain d ds' where ds: "ds = d # ds'" by (cases ds) auto
  from assms(3) have no_more: "takeWhile isDigit rest = []" "dropWhile isDigit rest = rest"
    by (cases rest; simp)+
  from assms(2) have "takeWhile isDigit (ds @ rest) = ds @ takeWhile isDigit rest"
    by (simp add: takeWhile_append2)
  with no_more have take: "takeWhile isDigit (ds @ rest) = ds" by simp
  from assms(2) have "dropWhile isDigit (ds @ rest) = dropWhile isDigit rest"
    by (simp add: dropWhile_append2)
  with no_more have drop: "dropWhile isDigit (ds @ rest) = rest" by simp
  from assms(2) ds have d: "isDigit d" by simp
  have "match_number_letter (d # (ds' @ rest)) =
          Some (takeWhile isDigit (d # (ds' @ rest)) @
                (case dropWhile isDigit (d # (ds' @ rest)) of [] \<Rightarrow> []
                 | r # _ \<Rightarrow> if isLetter r then [r] else []))"
    using d by (simp only: match_number_letter.simps if_True)
  then have "match_number_letter (ds @ rest) =
          Some (takeWhile isDigit (ds @ rest) @
                (case dropWhile isDigit (ds @ rest) of [] \<Rightarrow> []
                 | r # _ \<Rightarrow> if isLetter r then [r] else []))"
    by (simp only: ds append_Cons)
  then show ?thesis
    unfolding take drop by (cases rest) simp_all
qed

lemma match_number_letter_first:
  assumes "\<forall>c\<in>set pre. \<not> isDigit c" and "ds \<noteq> []" and "\<forall>c\<in>set ds. isDigit c"
    and "rest = [] \<or> \<not> isDigit (hd rest)"
  shows "match_number_letter (pre @ ds @ rest) =
           Some (ds @ (if rest \<noteq> [] \<and> isLetter (hd rest) then [hd rest] else []))"
  using assms(1)
proof (induction pre)
  case Nil
  show ?case using match_number_letter_run [OF assms(2-4)] by simp
next
  case (Cons c pre)
  then show ?case by simp
qed

lemma first_number_exists:
  assumes "\<exists>c\<in>set s. isDigit c"
  shows "\<exists>pre ds rest. s = pre @ ds @ rest \<and> (\<forall>c\<in>set pre. \<not> isDigit c) \<and> ds \<noteq> [] \<and>
           (\<forall>c\<in>set ds. isDigit c) \<and> (rest = [] \<or> \<not> isDigit (hd rest))"
proof -
  let ?pre = "takeWhile (\<lambda>c. \<not> isDigit c) s"
  let ?t = "dropWhile (\<lambda>c. \<not> isDigit c) s"
  let ?ds = "takeWhile isDigit ?t"
  let ?rest = "dropWhile isDigit ?t"
  have s: "s = ?pre @ ?ds @ ?rest" by simp
  have pre: "\<forall>c\<in>set ?pre. \<not> isDigit c" by (auto dest: set_takeWhileD)
  from assms have "?t \<noteq> []" by auto
  then have "isDigit (hd ?t)" using hd_dropWhile [of "\<lambda>c. \<not> isDigit c" s] by simp
  with \<open>?t \<noteq> []\<close> have ds: "?ds \<noteq> []" by (cases ?t) auto
  have all: "\<forall>c\<in>set ?ds. isDigit c" by (auto dest: set_takeWhileD)
  have rest: "?rest = [] \<or> \<not> isDigit (hd ?rest)"
    using hd_dropWhile [of isDigit ?t] by blast
  from s pre ds all rest show ?thesis by blast
qed

lemma addBuilding_stores_nickname:
  "case addBuilding m w now insights loc addr cfg None of
     (r, m', w') \<Rightarrow> \<exists>e. fst (getBuilding m' w' r) = Some e \<and> nickname e = Some (generateNickname addr)"
  by (simp add: addBuilding_eq getBuilding_def Map_get_Map_set_same)

text \<open>
  Claim C4, amended. For every address, \<^verbatim>\<open>addBuilding\<close> with the nickname omitted stores
  the nickname \<^verbatim>\<open>generateNickname(address)\<close>, which is derived as follows. Take the text
  before the first comma (the whole address when it has none) and strip the white space at
  both ends. If this text has no decimal digit, the nickname is the label \<^verbatim>\<open>Geb\<close>,
  a-umlaut, \<^verbatim>\<open>ude\<close>. Otherwise the text is, in exactly one way, a part without digits, then
  a longest run of digits, then a rest: the token is the run of digits (the first one of the
  text, wherever it stands) followed by the first character of the rest when that is an
  ASCII letter, and the nickname is the label, a space and the token.
\<close>

theorem generateNickname_first_number:
  "(case addBuilding m w now insights loc addr cfg None of
      (r, m', w') \<Rightarrow> \<exists>e. fst (getBuilding m' w' r) = Some e \<and> nickname e = Some (generateNickname addr)) \<and>
   CHR '','' \<notin> set (split_comma_0 addr) \<and>
   (\<exists>rest. addr = split_comma_0 addr @ rest \<and> (rest = [] \<or> hd rest = CHR '','')) \<and>
   (\<exists>l r. split_comma_0 addr = l @ trim (split_comma_0 addr) @ r \<and>
          (\<forall>c\<in>set l. isWhiteSpace c) \<and> (\<forall>c\<in>set r. isWhiteSpace c) \<and>
          (trim (split_comma_0 addr) \<noteq> [] \<longrightarrow>
             \<not> isWhiteSpace (hd (trim (split_comma_0 addr))) \<and>
             \<not> isWhiteSpace (last (trim (split_comma_0 addr))))) \<and>
   ((\<forall>c\<in>set (trim (split_comma_0 addr)). \<not> isDigit c) \<longrightarrow>
      generateNickname addr = ''Geb'' @ [CHR 0xE4] @ ''ude'') \<and>
   ((\<exists>c\<in>set (trim (split_comma_0 addr)). isDigit c) \<longrightarrow>
      (\<exists>pre ds rest. trim (split_comma_0 addr) = pre @ ds @ rest \<and> (\<forall>c\<in>set pre. \<not> isDigit c) \<and>
         ds \<noteq> [] \<and> (\<forall>c\<in>set ds. isDigit c) \<and> (rest = [] \<or> \<not> isDigit (hd rest)))) \<and>
   (\<forall>pre ds rest.
      trim (split_comma_0 addr) = pre @ ds @ rest \<and> (\<forall>c\<in>set pre. \<not> isDigit c) \<and>
      ds \<noteq> [] \<and> (\<forall>c\<in>set ds. isDigit c) \<and> (rest = [] \<or> \<not> isDigit (hd rest)) \<longrightarrow>
      generateNickname addr =
        ''Geb'' @ [CHR 0xE4] @ ''ude '' @ ds @ (if rest \<noteq> [] \<and> isLetter (hd rest) then [hd rest] else []))"
proof -
  have none: "generateNickname addr = ''Geb'' @ [CHR 0xE4] @ ''ude''"
    if "\<forall>c\<in>set (trim (split_comma_0 addr)). \<not> isDigit c"
    using match_number_letter_none [OF that] by (simp add: generateNickname_def)
  have some: "generateNickname addr =
        ''Geb'' @ [CHR 0xE4] @ ''ude '' @ ds @ (if rest \<noteq> [] \<and> isLetter (hd rest) then [hd rest] else [])"
    if "trim (split_comma_0 addr) = pre @ ds @ rest" "\<forall>c\<in>set pre. \<not> isDigit c"
      "ds \<noteq> []" "\<forall>c\<in>set ds. isDigit c" "rest = [] \<or> \<not> isDigit (hd rest)"
    for pre ds rest
    using match_number_letter_first [OF that(2-5)] that(1) by (simp add: generateNickname_def)
  from addBuilding_stores_nickname [where m = m and w = w and now = now and insights = insights and
      loc = loc and addr = addr and cfg = cfg]
    split_comma_0_spec [of addr] trim_spec [of "split_comma_0 addr"]
    first_number_exists [of "trim (split_comma_0 addr)"] none some
  show ?thesis
    by (intro conjI impI allI) blast+
qed

theorem generateNickname_first_number_witness:
  "trim (split_comma_0 ''  Hauptstr. 14a , 10115 Berlin'') = ''Hauptstr. '' @ ''14'' @ ''a'' \<and>
   generateNickname ''  Hauptstr. 14a , 10115 Berlin'' = ''Geb'' @ [CHR 0xE4] @ ''ude 14a'' \<and>
   trim (split_comma_0 ''Hauptstr. 14, 10115 Berlin'') = ''Hauptstr. '' @ ''14'' @ [] \<and>
   generateNickname ''Hauptstr. 14, 10115 Berlin'' = ''Geb'' @ [CHR 0xE4] @ ''ude 14'' \<and>
   trim (split_comma_0 ''Marktplatz, 10115 Berlin'') = ''Marktplatz'' \<and>
   generateNickname ''Marktplatz, 10115 Berlin'' = ''Geb'' @ [CHR 0xE4] @ ''ude''"
proof -
  have seg1: "trim (split_comma_0 ''  Hauptstr. 14a , 10115 Berlin'') = ''Hauptstr. '' @ ''14'' @ ''a''"
    and seg2: "trim (split_comma_0 ''Hauptstr. 14, 10115 Berlin'') = ''Hauptstr. '' @ ''14'' @ []"
    and seg3: "trim (split_comma_0 ''Marktplatz, 10115 Berlin'') = ''Marktplatz''"
    by (simp_all add: trim_def split_comma_0_def isWhiteSpace_def)
  have shape:
    "\<forall>c\<in>set ''Hauptstr. ''. \<not> isDigit c" "''14'' \<noteq> []" "\<forall>c\<in>set ''14''. isDigit c"
    "''a'' = [] \<or> \<not> isDigit (hd ''a'')"
    "\<forall>c\<in>set ''Marktplatz''. \<not> isDigit c" "isLetter (hd ''a'')"
    by (simp_all add: isDigit_def isLetter_def)
  have n1: "generateNickname ''  Hauptstr. 14a , 10115 Berlin'' = ''Geb'' @ [CHR 0xE4] @ ''ude 14a''"
  proof -
    from generateNickname_first_number [where addr = "''  Hauptstr. 14a , 10115 Berlin''" and m = manager2 and w = world2 and
        now = 0 and insights = mockBuildingInsights and loc = mockLatLng1 and cfg = None]
    have "\<forall>pre ds rest.
      trim (split_comma_0 ''  Hauptstr. 14a , 10115 Berlin'') = pre @ ds @ rest \<and> (\<forall>c\<in>set pre. \<not> isDigit c) \<and>
      ds \<noteq> [] \<and> (\<forall>c\<in>set ds. isDigit c) \<and> (rest = [] \<or> \<not> isDigit (hd rest)) \<longrightarrow>
      generateNickname ''  Hauptstr. 14a , 10115 Berlin'' =
        ''Geb'' @ [CHR 0xE4] @ ''ude '' @ ds @ (if rest \<noteq> [] \<and> isLetter (hd rest) then [hd rest] else [])"
      by (elim conjE)
    from this [rule_format, of "''Hauptstr. ''" "''14''" "''a''"] seg1 shape
    show ?thesis by simp
  qed
  have n2: "generateNickname ''Hauptstr. 14, 10115 Berlin'' = ''Geb'' @ [CHR 0xE4] @ ''ude 14''"
  proof -
    from generateNickname_first_number [where addr = "''Hauptstr. 14, 10115 Berlin''" and m = manager2 and w = world2 and
        now = 0 and insights = mockBuildingInsights and loc = mockLatLng1 and cfg = None]
    have "\<forall>pre ds rest.
      trim (split_comma_0 ''Hauptstr. 14, 10115 Berlin'') = pre @ ds @ rest \<and> (\<forall>c\<in>set pre. \<not> isDigit c) \<and>
      ds \<noteq> [] \<and> (\<forall>c\<in>set ds. isDigit c) \<and> (rest = [] \<or> \<not> isDigit (hd rest)) \<longrightarrow>
      generateNickname ''Hauptstr. 14, 10115 Berlin'' =
        ''Geb'' @ [CHR 0xE4] @ ''ude '' @ ds @ (if rest \<noteq> [] \<and> isLetter (hd rest) then [hd rest] else [])"
      by (elim conjE)
    from this [rule_format, of "''Hauptstr. ''" "''14''" "[]"] seg2 shape
    show ?thesis by simp
  qed
  have n3: "generateNickname ''Marktplatz, 10115 Berlin'' = ''Geb'' @ [CHR 0xE4] @ ''ude''"
  proof -
    from generateNickname_first_number [where addr = "''Marktplatz, 10115 Berlin''" and m = manager2 and w = world2 and
        now = 0 and insights = mockBuildingInsights and loc = mockLatLng1 and cfg = None]
    have "(\<forall>c\<in>set (trim (split_comma_0 ''Marktplatz, 10115 Berlin'')). \<not> isDigit c) \<longrightarrow>
      generateNickname ''Marktplatz, 10115 Berlin'' = ''Geb'' @ [CHR 0xE4] @ ''ude''"
      by (elim conjE)
    with seg3 shape show ?thesis by (simp only:)
  qed
  from seg1 seg2 seg3 n1 n2 n3 show ?thesis
    by (simp only: simp_thms)
qed

text \<open>
  As stated, the claim fails. For the address \<^verbatim>\<open>Hauptstr. 14a, 10115 Berlin\<close> the text
  before the first comma does not begin with a number, and the stored nickname is neither
  \<^verbatim>\<open>Building\<close> nor \<^verbatim>\<open>Building 14a\<close>: the number is found after the street name, and
  the label is \<^verbatim>\<open>Geb\<close>, a-umlaut, \<^verbatim>\<open>ude\<close>. For \<^verbatim>\<open>14a Main St\<close>, which begins with the
  number, the nickname is not \<^verbatim>\<open>Building 14a\<close> either.
\<close>

theorem generateNickname_counterexample:
  "map_option nickname
     (Map_get
        (buildings (fst (snd (addBuilding (new_MultiBuildingManager True) world0 1700000000000
           mockBuildingInsights mockLatLng1 ''Hauptstr. 14a, 10115 Berlin'' None None))))
        (fst (addBuilding (new_MultiBuildingManager True) world0 1700000000000
           mockBuildingInsights mockLatLng1 ''Hauptstr. 14a, 10115 Berlin'' None None))) =
     Some (Some (''Geb'' @ [CHR 0xE4] @ ''ude 14a'')) \<and>
   ''Geb'' @ [CHR 0xE4] @ ''ude 14a'' \<noteq> ''Building'' \<and>
   ''Geb'' @ [CHR 0xE4] @ ''ude 14a'' \<noteq> ''Building 14a'' \<and>
   generateNickname ''14a Main St'' = ''Geb'' @ [CHR 0xE4] @ ''ude 14a'' \<and>
   generateNickname ''Main St'' = ''Geb'' @ [CHR 0xE4] @ ''ude''"
proof -
  have "generateNickname ''Hauptstr. 14a, 10115 Berlin'' = ''Geb'' @ [CHR 0xE4] @ ''ude 14a''"
    "generateNickname ''14a Main St'' = ''Geb'' @ [CHR 0xE4] @ ''ude 14a''"
    "generateNickname ''Main St'' = ''Geb'' @ [CHR 0xE4] @ ''ude''"
    by (simp_all add: generateNickname_def trim_def split_comma_0_def isWhiteSpace_def isDigit_def
        isLetter_def)
  then show ?thesis
    by (simp add: addBuilding_eq Map_get_Map_set_same)
qed

section \<open>Generated ids\<close>

lemma digit_char_code: "n < 10 \<Longrightarrow> of_char (digit_char n) = 48 + n"
proof -
  assume "n < 10"
  then have "n \<in> {0, 1, 2, 3, 4, 5, 6, 7, 8, 9}" by auto
  then show ?thesis by (auto simp add: digit_char_def)
qed

lemma digit_char_isDigit: "n < 10 \<Longrightarrow> isDigit (digit_char n)"
proof -
  assume "n < 10"
  then have "n \<in> {0, 1, 2, 3, 4, 5, 6, 7, 8, 9}" by auto
  then show ?thesis by (auto simp add: digit_char_def isDigit_def)
qed

lemma digits_value_snoc: "digits_value (s @ [c]) = 10 * digits_value s + (of_char c - 48)"
  by (simp add: digits_value_def)

lemma digits_value_digits: "digits_value (digits n) = n"
proof (induction n rule: digits.induct)
  case (1 n)
  show ?case
  proof (cases "n < 10")
    case True
    then show ?thesis
      by (simp add: digits_small digits_value_def digit_char_code)
  next
    case False
    have "n mod 10 < 10" by simp
    then have "of_char (digit_char (n mod 10)) = 48 + n mod 10" by (rule digit_char_code)
    with False "1.IH" show ?thesis
      by (simp add: digits_large digits_value_snoc)
  qed
qed

lemma digits_inj: "digits n = digits k \<Longrightarrow> n = k"
  by (metis digits_value_digits)

lemma digits_isDigit: "\<forall>c\<in>set (digits n). isDigit c"
proof (induction n rule: digits.induct)
  case (1 n)
  show ?case
  proof (cases "n < 10")
    case True
    then show ?thesis by (simp add: digits_small digit_char_isDigit)
  next
    case False
    with "1.IH" show ?thesis by (simp add: digits_large digit_char_isDigit)
  qed
qed

lemma digits_not_Nil: "digits n \<noteq> []"
  by (cases "n < 10") (simp_all add: digits_small digits_large)

lemma isDigit_not_sign: "isDigit c \<Longrightarrow> c \<noteq> CHR ''-'' \<and> c \<noteq> CHR ''_''"
  by (auto simp add: isDigit_def)

lemma minus_not_in_digits: "CHR ''-'' \<notin> set (digits n)"
  using digits_isDigit [of n] isDigit_not_sign by blast

lemma underscore_not_in_digits: "CHR ''_'' \<notin> set (digits n)"
  using digits_isDigit [of n] isDigit_not_sign by blast

lemma numberToString_inj: "numberToString i = numberToString j \<Longrightarrow> i = j"
proof -
  assume eq: "numberToString i = numberToString j"
  have differ: "CHR ''-'' # digits a \<noteq> digits b" for a b
    using minus_not_in_digits [of b] by (metis list.set_intros(1))
  show ?thesis
  proof (cases "i < 0")
    case True
    note i = this
    show ?thesis
    proof (cases "j < 0")
      case True
      with i eq have "digits (nat (- i)) = digits (nat (- j))" by (simp add: numberToString_def)
      then have "nat (- i) = nat (- j)" by (rule digits_inj)
      with i True show ?thesis by simp
    next
      case False
      with i eq differ show ?thesis by (simp add: numberToString_def)
    qed
  next
    case False
    note i = this
    show ?thesis
    proof (cases "j < 0")
      case True
      with i eq differ [of "nat (- j)" "nat i"] show ?thesis by (simp add: numberToString_def)
    next
      case False
      with i eq have "digits (nat i) = digits (nat j)" by (simp add: numberToString_def)
      then have "nat i = nat j" by (rule digits_inj)
      with i False show ?thesis by simp
    qed
  qed
qed

lemma underscore_not_in_toFixed: "CHR ''_'' \<notin> set (toFixed x f)"
proof -
  define n where "n = nat \<lfloor>\<bar>x\<bar> * 10 ^ f + 1 / 2\<rfloor>"
  define m1 where "m1 = (if length (digits n) \<le> f
                         then replicate (f + 1 - length (digits n)) (CHR ''0'') @ digits n
                         else digits n)"
  define m2 where "m2 = (if f \<noteq> 0
                         then take (length m1 - f) m1 @ ''.'' @ drop (length m1 - f) m1
                         else digits n)"
  have shape: "toFixed x f = (if x < 0 then ''-'' else []) @ m2"
    by (simp add: toFixed_def Let_def n_def m1_def m2_def)
  have m1: "CHR ''_'' \<notin> set m1"
    using underscore_not_in_digits [of n] by (auto simp add: m1_def)
  have "CHR ''_'' \<notin> set (take k m1)" and "CHR ''_'' \<notin> set (drop k m1)" for k
    using m1 by (auto dest: in_set_takeD in_set_dropD)
  then have m2: "CHR ''_'' \<notin> set m2"
    using underscore_not_in_digits [of n] by (auto simp add: m2_def)
  show ?thesis
    unfolding shape using m2 by auto
qed

lemma split_at_underscore:
  assumes "CHR ''_'' \<notin> set a" and "CHR ''_'' \<notin> set a'" and "a @ CHR ''_'' # r = a' @ CHR ''_'' # r'"
  shows "a = a' \<and> r = r'"
  using assms
proof (induction a arbitrary: a')
  case Nil
  then show ?case by (cases a') auto
next
  case (Cons c a)
  then show ?case by (cases a') auto
qed

lemma generateId_eq_iff:
  "generateId now1 loc1 = generateId now2 loc2 \<longleftrightarrow>
     toFixed (lat loc1) 6 = toFixed (lat loc2) 6 \<and> toFixed (lng loc1) 6 = toFixed (lng loc2) 6 \<and>
     now1 = now2"
proof
  assume eq: "generateId now1 loc1 = generateId now2 loc2"
  then have "toFixed (lat loc1) 6 @ CHR ''_'' # (toFixed (lng loc1) 6 @ CHR ''_'' # numberToString now1) =
             toFixed (lat loc2) 6 @ CHR ''_'' # (toFixed (lng loc2) 6 @ CHR ''_'' # numberToString now2)"
    by (simp add: generateId_def)
  from split_at_underscore [OF underscore_not_in_toFixed underscore_not_in_toFixed this]
  have lat_eq: "toFixed (lat loc1) 6 = toFixed (lat loc2) 6"
    and rest: "toFixed (lng loc1) 6 @ CHR ''_'' # numberToString now1 =
               toFixed (lng loc2) 6 @ CHR ''_'' # numberToString now2"
    by simp_all
  from split_at_underscore [OF underscore_not_in_toFixed underscore_not_in_toFixed rest]
  have lng_eq: "toFixed (lng loc1) 6 = toFixed (lng loc2) 6"
    and "numberToString now1 = numberToString now2"
    by simp_all
  then have "now1 = now2" by (simp add: numberToString_inj)
  with lat_eq lng_eq
  show "toFixed (lat loc1) 6 = toFixed (lat loc2) 6 \<and> toFixed (lng loc1) 6 = toFixed (lng loc2) 6 \<and>
        now1 = now2"
    by simp
next
  assume "toFixed (lat loc1) 6 = toFixed (lat loc2) 6 \<and> toFixed (lng loc1) 6 = toFixed (lng loc2) 6 \<and>
          now1 = now2"
  then show "generateId now1 loc1 = generateId now2 loc2"
    by (simp add: generateId_def)
qed

section \<open>The ids of the live entries\<close>

lemma keys_Map_set:
  "map fst (Map_set k v kvs) = (if k \<in> fst ` set kvs then map fst kvs else map fst kvs @ [k])"
  by (induction kvs) (auto simp add: rev_image_eqI)

lemma distinct_keys_Map_set: "distinct (map fst kvs) \<Longrightarrow> distinct (map fst (Map_set k v kvs))"
  by (simp add: keys_Map_set)

lemma list_all_Map_set: "list_all P kvs \<Longrightarrow> P (k, v) \<Longrightarrow> list_all P (Map_set k v kvs)"
  by (induction kvs) auto

lemma Map_get_in_set: "Map_get kvs k = Some v \<Longrightarrow> (k, v) \<in> set kvs"
  by (induction kvs) (auto split: if_splits)

lemma in_set_Map_get: "distinct (map fst kvs) \<Longrightarrow> (k, v) \<in> set kvs \<Longrightarrow> Map_get kvs k = Some v"
  by (induction kvs) (auto simp add: rev_image_eqI)

lemma ids_are_keys_Map_set:
  "ids_are_keys m \<Longrightarrow> id' b = k \<Longrightarrow> ids_are_keys (m\<lparr>buildings := Map_set k b (buildings m)\<rparr>)"
  by (simp add: ids_are_keys_def distinct_keys_Map_set list_all_Map_set)

lemma ids_are_keys_Map_delete:
  "ids_are_keys m \<Longrightarrow> ids_are_keys (m\<lparr>buildings := Map_delete k (buildings m)\<rparr>)"
  by (simp add: ids_are_keys_def Map_delete_def distinct_map_filter list_all_iff)

lemma ids_are_keys_lookup: "ids_are_keys m \<Longrightarrow> Map_get (buildings m) k = Some b \<Longrightarrow> id' b = k"
proof -
  assume inv: "ids_are_keys m" and "Map_get (buildings m) k = Some b"
  then have "(k, b) \<in> set (buildings m)" by (simp add: Map_get_in_set)
  with inv have "id' (snd (k, b)) = fst (k, b)"
    unfolding ids_are_keys_def list_all_iff by blast
  then show ?thesis by simp
qed

lemma ids_are_keys_values: "ids_are_keys m \<Longrightarrow> map id' (Map_values (buildings m)) = map fst (buildings m)"
  by (simp add: ids_are_keys_def Map_values_def list_all_iff)

lemma ids_are_keys_distinct: "ids_are_keys m \<Longrightarrow> distinct (map id' (fst (getAllBuildings m w)))"
  using ids_are_keys_values [of m] by (simp add: getAllBuildings_def ids_are_keys_def)

lemma getAggregatedData_state: "snd (getAggregatedData m w r d) = (m, w)"
  by (simp add: getAggregatedData_def getActiveBuildings_def split: sum.splits prod.splits)

lemma exec_ids_are_keys: "ids_are_keys (fst s) \<Longrightarrow> ids_are_keys (fst (exec c s))"
proof -
  assume inv: "ids_are_keys (fst s)"
  obtain m w where s: "s = (m, w)" by (cases s)
  with inv have m: "ids_are_keys m" by simp
  show ?thesis
  proof (cases c)
    case (AddBuilding now insights loc addr cfg nick)
    with m show ?thesis
      by (simp add: s addBuilding_eq ids_are_keys_Map_set)
  next
    case (RemoveBuilding i)
    with m show ?thesis
      by (cases "Map_get (buildings m) i")
        (simp_all add: s removeBuilding_def notifyUpdate_eq Let_def ids_are_keys_Map_delete)
  next
    case (UpdateBuildingConfig i cfg)
    with m show ?thesis
      by (cases "Map_get (buildings m) i")
        (simp_all add: s updateBuildingConfig_def notifyUpdate_eq Let_def ids_are_keys_Map_set
          ids_are_keys_lookup)
  next
    case (UpdateBuildingNickname i nick)
    with m show ?thesis
      by (cases "Map_get (buildings m) i")
        (simp_all add: s updateBuildingNickname_def notifyUpdate_eq Let_def ids_are_keys_Map_set
          ids_are_keys_lookup)
  next
    case (ToggleBuildingActive i)
    with m show ?thesis
      by (cases "Map_get (buildings m) i")
        (simp_all add: s toggleBuildingActive_def notifyUpdate_eq Let_def ids_are_keys_Map_set
          ids_are_keys_lookup)
  next
    case (SetBuildingPanels i ps)
    with m show ?thesis
      by (cases "Map_get (buildings m) i")
        (simp_all add: s setBuildingPanels_def ids_are_keys_Map_set ids_are_keys_lookup)
  next
    case (SetBuildingBoundary i p)
    with m show ?thesis
      by (cases "Map_get (buildings m) i")
        (simp_all add: s setBuildingBoundary_def ids_are_keys_Map_set ids_are_keys_lookup)
  next
    case (GetBuilding i)
    with m show ?thesis by (simp add: s getBuilding_def)
  next
    case GetAllBuildings
    with m show ?thesis by (simp add: s getAllBuildings_def)
  next
    case GetActiveBuildings
    with m show ?thesis by (simp add: s getActiveBuildings_def)
  next
    case (HasBuilding loc threshold)
    with m show ?thesis by (simp add: s hasBuilding_def)
  next
    case (GetAggregatedData r d)
    with m show ?thesis by (simp add: s getAggregatedData_state)
  next
    case Clear
    show ?thesis by (simp add: s Clear clear_eq ids_are_keys_def)
  qed
qed

lemma run_snoc: "run onUpdate (cs @ [c]) = exec c (run onUpdate cs)"
  by (simp add: run_def)

lemma run_ids_are_keys: "ids_are_keys (fst (run onUpdate cs))"
proof (induction cs rule: rev_induct)
  case Nil
  show ?case by (simp add: run_def new_MultiBuildingManager_def ids_are_keys_def)
next
  case (snoc c cs)
  then show ?case by (simp add: run_snoc exec_ids_are_keys)
qed

lemma addBuilding_live:
  "case addBuilding m w now insights loc addr cfg nick of
     (r, m', w') \<Rightarrow> \<exists>e. fst (getBuilding m' w' r) = Some e \<and> id' e = r"
  by (simp add: addBuilding_eq getBuilding_def Map_get_Map_set_same)

lemma length_Map_set:
  "length (Map_set k v kvs) = (if k \<in> fst ` set kvs then length kvs else length kvs + 1)"
  using arg_cong [OF keys_Map_set [of k v kvs], of length] by (simp split: if_splits)

text \<open>
  Claim C8, amended. After the constructor and any sequence of calls, the entries of the
  map are stored under their own ids and these ids are pairwise distinct: the id of every
  entry is unique across all live entries at all times. \<^verbatim>\<open>addBuilding\<close> returns the id
  generated from the location and the timestamp, the entry stored under it is live, and the
  ids stay distinct; when no live entry held that id the map grows by one entry. Two
  generated ids are equal exactly when the latitudes and the longitudes agree in their
  rendering with 6 decimal digits and the timestamps are equal. In particular two adds at
  the same location at different timestamps return different ids, and both entries are live
  afterwards.
\<close>

theorem ids_distinct_at_all_times:
  "(case run onUpdate cs of
      (m, w) \<Rightarrow>
        ids_are_keys m \<and>
        distinct (map id' (fst (getAllBuildings m w))) \<and>
        (case addBuilding m w now insights loc addr cfg nick of
           (r, m', w') \<Rightarrow>
             r = generateId now loc \<and>
             (\<exists>e. fst (getBuilding m' w' r) = Some e \<and> id' e = r) \<and>
             distinct (map id' (fst (getAllBuildings m' w'))) \<and>
             (r \<notin> set (map id' (fst (getAllBuildings m w))) \<longrightarrow>
                length (fst (getAllBuildings m' w')) = length (fst (getAllBuildings m w)) + 1) \<and>
             (case addBuilding m' w' now' insights' loc addr' cfg' nick' of
                (r2, m'', w'') \<Rightarrow>
                  now' \<noteq> now \<longrightarrow>
                    r2 \<noteq> r \<and> fst (getBuilding m'' w'' r) \<noteq> None \<and>
                    fst (getBuilding m'' w'' r2) \<noteq> None \<and>
                    distinct (map id' (fst (getAllBuildings m'' w'')))))) \<and>
   (generateId now_a loc_a = generateId now_b loc_b \<longleftrightarrow>
      toFixed (lat loc_a) 6 = toFixed (lat loc_b) 6 \<and> toFixed (lng loc_a) 6 = toFixed (lng loc_b) 6 \<and>
      now_a = now_b)"
proof -
  obtain m w where mw: "run onUpdate cs = (m, w)"
    by (cases "run onUpdate cs")
  have inv: "ids_are_keys m"
    using run_ids_are_keys [of onUpdate cs] by (simp add: mw)
  obtain r m' w' where add1: "addBuilding m w now insights loc addr cfg nick = (r, m', w')"
    by (cases "addBuilding m w now insights loc addr cfg nick")
  obtain r2 m'' w'' where add2: "addBuilding m' w' now' insights' loc addr' cfg' nick' = (r2, m'', w'')"
    by (cases "addBuilding m' w' now' insights' loc addr' cfg' nick'")
  have "exec (AddBuilding now insights loc addr cfg nick) (m, w) = (m', w')"
    by (simp add: add1)
  with inv have inv': "ids_are_keys m'"
    using exec_ids_are_keys [of "(m, w)" "AddBuilding now insights loc addr cfg nick"]
    by (simp del: exec.simps)
  have "exec (AddBuilding now' insights' loc addr' cfg' nick') (m', w') = (m'', w'')"
    by (simp add: add2)
  with inv' have inv'': "ids_are_keys m''"
    using exec_ids_are_keys [of "(m', w')" "AddBuilding now' insights' loc addr' cfg' nick'"]
    by (simp del: exec.simps)
  have r: "r = generateId now loc" and r2: "r2 = generateId now' loc"
    using add1 add2 by (simp_all add: addBuilding_eq)
  have live1: "\<exists>e. fst (getBuilding m' w' r) = Some e \<and> id' e = r"
    using addBuilding_live [of m w now insights loc addr cfg nick] by (simp add: add1)
  have live2: "\<exists>e. fst (getBuilding m'' w'' r2) = Some e \<and> id' e = r2"
    using addBuilding_live [of m' w' now' insights' loc addr' cfg' nick'] by (simp add: add2)
  have grows: "length (fst (getAllBuildings m' w')) = length (fst (getAllBuildings m w)) + 1"
    if "r \<notin> set (map id' (fst (getAllBuildings m w)))"
  proof -
    from that have "r \<notin> fst ` set (buildings m)"
      using ids_are_keys_values [OF inv] by (simp add: getAllBuildings_def)
    moreover have "buildings m' = Map_set r (the (Map_get (buildings m') r)) (buildings m)"
      using add1 by (auto simp add: addBuilding_eq Map_get_Map_set_same)
    ultimately show ?thesis
      using length_Map_set [of r "the (Map_get (buildings m') r)" "buildings m"]
      by (simp add: getAllBuildings_def Map_values_def)
  qed
  have second: "r2 \<noteq> r \<and> fst (getBuilding m'' w'' r) \<noteq> None \<and> fst (getBuilding m'' w'' r2) \<noteq> None"
    if "now' \<noteq> now"
  proof -
    from that have differ: "r2 \<noteq> r"
      by (simp add: r r2 generateId_eq_iff)
    have "buildings m'' = Map_set r2 (the (Map_get (buildings m'') r2)) (buildings m')"
      using add2 by (auto simp add: addBuilding_eq Map_get_Map_set_same)
    then have "Map_get (buildings m'') r = Map_get (buildings m') r"
      using differ Map_get_Map_set_other [of r r2] by metis
    with live1 live2 differ show ?thesis
      by (auto simp add: getBuilding_def)
  qed
  show ?thesis
    unfolding mw add1 add2 prod.case
    using inv ids_are_keys_distinct [OF inv] ids_are_keys_distinct [OF inv'] ids_are_keys_distinct [OF inv'']
      r live1 grows second generateId_eq_iff [of now_a loc_a now_b loc_b]
    by blast
qed

lemma run_one_add:
  "run True [AddBuilding 1700000000000 mockBuildingInsights mockLatLng1 ''Building 1'' (Some 0) None] =
     (manager1, world1)"
  by (simp add: run_def add_entry1 manager1_def world1_def)

lemma id_third: "generateId 1700000000002 mockLatLng1 = ''building_37.441900_-122.143000_1700000000002''"
  by (simp add: mockLatLng1_def eval_strings)

lemma id_near: "generateId 1700000000000 nearLatLng1 = id' entry1"
  by (simp add: entry1_def nearLatLng1_def eval_strings)

theorem ids_distinct_at_all_times_witness:
  "run True two_adds = (manager2, world2) \<and>
   ids_are_keys manager2 \<and>
   fst (getAllBuildings manager2 world2) = [entry1, entry2] \<and>
   distinct (map id' [entry1, entry2]) \<and>
   fst (addBuilding manager2 world2 1700000000002 mockBuildingInsights mockLatLng1 ''Building 3'' None None) =
     ''building_37.441900_-122.143000_1700000000002'' \<and>
   ''building_37.441900_-122.143000_1700000000002'' \<notin> set (map id' [entry1, entry2]) \<and>
   length (fst (getAllBuildings
     (fst (snd (addBuilding manager2 world2 1700000000002 mockBuildingInsights mockLatLng1 ''Building 3'' None None)))
     (snd (snd (addBuilding manager2 world2 1700000000002 mockBuildingInsights mockLatLng1 ''Building 3'' None None))))) = 3 \<and>
   generateId 1700000000003 mockLatLng1 \<noteq> generateId 1700000000002 mockLatLng1 \<and>
   toFixed (lat nearLatLng1) 6 = toFixed (lat mockLatLng1) 6 \<and>
   toFixed (lng nearLatLng1) 6 = toFixed (lng mockLatLng1) 6 \<and>
   generateId 1700000000000 nearLatLng1 = generateId 1700000000000 mockLatLng1"
proof -
  let ?add = "addBuilding manager2 world2 1700000000002 mockBuildingInsights mockLatLng1 ''Building 3'' None None"
  note inst = ids_distinct_at_all_times [where onUpdate = True and cs = two_adds and
      now = 1700000000002 and insights = mockBuildingInsights and loc = mockLatLng1 and
      addr = "''Building 3''" and cfg = None and nick = None and
      now' = 1700000000003 and insights' = mockBuildingInsights and addr' = "''Building 4''" and
      cfg' = None and nick' = None and
      now_a = 1700000000000 and loc_a = nearLatLng1 and now_b = 1700000000000 and loc_b = mockLatLng1,
      unfolded run_two_adds prod.case case_prod_beta fst_conv snd_conv]
  have all: "fst (getAllBuildings manager2 world2) = [entry1, entry2]"
    by (simp add: getAllBuildings_def manager2_def Map_values_def)
  have fresh: "''building_37.441900_-122.143000_1700000000002'' \<notin> set (map id' [entry1, entry2])"
    by (simp add: entry1_def entry2_def)
  from inst have inv: "ids_are_keys manager2"
    and dist: "distinct (map id' (fst (getAllBuildings manager2 world2)))"
    and r: "fst ?add = generateId 1700000000002 mockLatLng1"
    and grows: "fst ?add \<notin> set (map id' (fst (getAllBuildings manager2 world2))) \<longrightarrow>
                length (fst (getAllBuildings (fst (snd ?add)) (snd (snd ?add)))) =
                length (fst (getAllBuildings manager2 world2)) + 1"
    and second: "(1700000000003::int) \<noteq> 1700000000002 \<longrightarrow>
                fst (addBuilding (fst (snd ?add)) (snd (snd ?add)) 1700000000003 mockBuildingInsights
                       mockLatLng1 ''Building 4'' None None) \<noteq> fst ?add"
    and same: "generateId 1700000000000 nearLatLng1 = generateId 1700000000000 mockLatLng1 \<longleftrightarrow>
               toFixed (lat nearLatLng1) 6 = toFixed (lat mockLatLng1) 6 \<and>
               toFixed (lng nearLatLng1) 6 = toFixed (lng mockLatLng1) 6 \<and>
               (1700000000000::int) = 1700000000000"
    by blast+
  from grows r fresh have three: "length (fst (getAllBuildings (fst (snd ?add)) (snd (snd ?add)))) = 3"
    by (simp add: all id_third)
  from second r have differ: "generateId 1700000000003 mockLatLng1 \<noteq> generateId 1700000000002 mockLatLng1"
    by (simp add: addBuilding_eq)
  from same have agree: "toFixed (lat nearLatLng1) 6 = toFixed (lat mockLatLng1) 6"
    "toFixed (lng nearLatLng1) 6 = toFixed (lng mockLatLng1) 6"
    "generateId 1700000000000 nearLatLng1 = generateId 1700000000000 mockLatLng1"
    by (simp_all add: id_near id_entry1)
  from dist have dist': "distinct (map id' [entry1, entry2])"
    by (simp only: all)
  from r have r': "fst ?add = ''building_37.441900_-122.143000_1700000000002''"
    by (simp only: id_third)
  from run_two_adds inv all dist' r' fresh three differ agree show ?thesis
    by (simp only: simp_thms)
qed

text \<open>
  As stated, the claim fails: a second \<^verbatim>\<open>addBuilding\<close> at the same location within the same
  millisecond returns the id of the entry that is already live, and the map still has one
  entry.
\<close>

theorem addBuilding_id_counterexample:
  "run True [AddBuilding 1700000000000 mockBuildingInsights mockLatLng1 ''Building 1'' (Some 0) None] =
     (manager1, world1) \<and>
   map id' (fst (getAllBuildings manager1 world1)) = [''building_37.441900_-122.143000_1700000000000''] \<and>
   fst (addBuilding manager1 world1 1700000000000 mockBuildingInsights mockLatLng1 ''Building 1'' (Some 0) None) =
     ''building_37.441900_-122.143000_1700000000000'' \<and>
   length (fst (getAllBuildings
     (fst (snd (addBuilding manager1 world1 1700000000000 mockBuildingInsights mockLatLng1 ''Building 1'' (Some 0) None)))
     (snd (snd (addBuilding manager1 world1 1700000000000 mockBuildingInsights mockLatLng1 ''Building 1'' (Some 0) None))))) = 1"
proof -
  have id1: "id' entry1 = ''building_37.441900_-122.143000_1700000000000''"
    by (simp add: entry1_def)
  show ?thesis
    by (simp add: run_one_add addBuilding_eq id_entry1 getAllBuildings_def Map_values_def manager1_def id1)
qed

section \<open>An add that generates the id of a live entry\<close>

lemma values_of_key:
  assumes "distinct (map fst kvs)" and "list_all (\<lambda>kv. id' (snd kv) = fst kv) kvs"
    and "b \<in> set (Map_values kvs)"
  shows "Map_get kvs (id' b) = Some b"
proof -
  from assms(3) obtain k where k: "(k, b) \<in> set kvs"
    by (auto simp add: Map_values_def)
  with assms(2) have "id' (snd (k, b)) = fst (k, b)"
    unfolding list_all_iff by blast
  then have "id' b = k"
    by simp
  with k assms(1) show ?thesis
    by (simp add: in_set_Map_get)
qed

text \<open>
  Claim C9. If an \<^verbatim>\<open>addBuilding\<close> call generates the id of a live entry (the coordinates
  agree to 6 decimal digits with those of the add that created the entry, and the timestamp
  is the same), it returns that id without reporting an error and replaces the entry stored
  under it: the map keeps its keys and its size, the entry under the id is the new one (no
  boundary, no panels), every other entry is as it was, and no \<^verbatim>\<open>setMap(null)\<close> is
  called, so the boundary and the panels of the replaced entry are not detached. Wherever
  the entries are stored under their ids, a replaced entry that had a boundary or panels is
  no longer among the entries of the manager.
\<close>

theorem addBuilding_same_id_replaces:
  assumes same: "now' = now" "toFixed (lat loc') 6 = toFixed (lat loc) 6"
      "toFixed (lng loc') 6 = toFixed (lng loc) 6"
    and live: "Map_get (buildings m) (generateId now loc) = Some old"
  shows "case addBuilding m w now' insights loc' addr cfg nick of
           (r, m', w') \<Rightarrow>
             r = generateId now loc \<and>
             length (fst (getAllBuildings m' w')) = length (fst (getAllBuildings m w)) \<and>
             map fst (buildings m') = map fst (buildings m) \<and>
             (\<exists>e. fst (getBuilding m' w' r) = Some e \<and> panels e = [] \<and> boundary e = None \<and>
                  isActive e \<and> address e = addr \<and> buildingInsights e = insights \<and> location e = loc') \<and>
             (\<forall>j. j \<noteq> r \<longrightarrow> fst (getBuilding m' w' j) = fst (getBuilding m w j)) \<and>
             setMap_null_calls w' = setMap_null_calls w \<and>
             (ids_are_keys m \<and> (panels old \<noteq> [] \<or> boundary old \<noteq> None) \<longrightarrow>
                old \<notin> set (fst (getAllBuildings m' w')))"
proof -
  let ?e = "\<lparr>id' = generateId now loc, buildingInsights = insights, configId = dflt 0 cfg,
             location = loc', address = addr,
             nickname = Some (case nick of None \<Rightarrow> generateNickname addr
                               | Some n \<Rightarrow> if n = [] then generateNickname addr else n),
             boundary = None, panels = [], isActive = True\<rparr>"
  from same have id_eq: "generateId now' loc' = generateId now loc"
    by (simp add: generateId_eq_iff)
  obtain r m' w' where add: "addBuilding m w now' insights loc' addr cfg nick = (r, m', w')"
    by (cases "addBuilding m w now' insights loc' addr cfg nick")
  from add have r: "r = generateId now loc"
    and m': "buildings m' = Map_set (generateId now loc) ?e (buildings m)"
    and w': "setMap_null_calls w' = setMap_null_calls w"
    by (auto simp add: addBuilding_eq id_eq)
  from live have keys: "map fst (buildings m') = map fst (buildings m)"
    by (simp add: m' keys_Map_set_present)
  then have "length (map fst (buildings m')) = length (map fst (buildings m))"
    by simp
  then have len: "length (fst (getAllBuildings m' w')) = length (fst (getAllBuildings m w))"
    by (simp add: getAllBuildings_def Map_values_def)
  have new: "fst (getBuilding m' w' r) = Some ?e"
    by (simp add: getBuilding_def m' r Map_get_Map_set_same)
  have others: "\<forall>j. j \<noteq> r \<longrightarrow> fst (getBuilding m' w' j) = fst (getBuilding m w j)"
    by (simp add: getBuilding_def m' r Map_get_Map_set_other)
  have gone: "old \<notin> set (fst (getAllBuildings m' w'))"
    if inv: "ids_are_keys m" and attached: "panels old \<noteq> [] \<or> boundary old \<noteq> None"
  proof
    assume "old \<in> set (fst (getAllBuildings m' w'))"
    then have old: "old \<in> set (Map_values (buildings m'))"
      by (simp add: getAllBuildings_def)
    have "ids_are_keys (m\<lparr>buildings := Map_set (generateId now loc) ?e (buildings m)\<rparr>)"
      using inv by (rule ids_are_keys_Map_set) simp
    then have "distinct (map fst (buildings m'))" "list_all (\<lambda>kv. id' (snd kv) = fst kv) (buildings m')"
      by (simp_all add: ids_are_keys_def m')
    from values_of_key [OF this old] have "Map_get (buildings m') (id' old) = Some old" .
    moreover from inv live have "id' old = generateId now loc"
      by (rule ids_are_keys_lookup)
    ultimately have "old = ?e"
      by (simp add: m' Map_get_Map_set_same)
    then have "panels old = [] \<and> boundary old = None"
      by simp
    with attached show False by simp
  qed
  from new have entry:
    "\<exists>e. fst (getBuilding m' w' r) = Some e \<and> panels e = [] \<and> boundary e = None \<and>
         isActive e \<and> address e = addr \<and> buildingInsights e = insights \<and> location e = loc'"
    by simp
  show ?thesis
    unfolding add prod.case
    using r len keys entry others w' gone by blast
qed

lemma run_with_panels:
  "run True (two_adds @ [SetBuildingPanels (id' entry1) [1, 2], SetBuildingBoundary (id' entry1) 3]) =
     (manager_with_panels, world2)"
proof -
  have "run True (two_adds @ [SetBuildingPanels (id' entry1) [1, 2], SetBuildingBoundary (id' entry1) 3]) =
        exec (SetBuildingBoundary (id' entry1) 3) (exec (SetBuildingPanels (id' entry1) [1, 2]) (run True two_adds))"
    by (simp add: run_def)
  also have "\<dots> = (manager_with_panels, world2)"
    by (simp add: run_two_adds setBuildingPanels_def setBuildingBoundary_def manager2_def
        manager_with_panels_def)
  finally show ?thesis .
qed

theorem addBuilding_same_id_replaces_witness:
  "run True (two_adds @ [SetBuildingPanels (id' entry1) [1, 2], SetBuildingBoundary (id' entry1) 3]) =
     (manager_with_panels, world2) \<and>
   toFixed (lat nearLatLng1) 6 = toFixed (lat mockLatLng1) 6 \<and>
   toFixed (lng nearLatLng1) 6 = toFixed (lng mockLatLng1) 6 \<and>
   Map_get (buildings manager_with_panels) (generateId 1700000000000 mockLatLng1) =
     Some (entry1\<lparr>boundary := Some 3, panels := [1, 2]\<rparr>) \<and>
   ids_are_keys manager_with_panels \<and>
   fst (addBuilding manager_with_panels world2 1700000000000 mockBuildingInsights nearLatLng1
          ''Building 1'' None None) = id' entry1 \<and>
   length (fst (getAllBuildings manager_with_panels world2)) = 2 \<and>
   length (fst (getAllBuildings
     (fst (snd (addBuilding manager_with_panels world2 1700000000000 mockBuildingInsights nearLatLng1
                  ''Building 1'' None None)))
     (snd (snd (addBuilding manager_with_panels world2 1700000000000 mockBuildingInsights nearLatLng1
                  ''Building 1'' None None))))) = 2 \<and>
   setMap_null_calls
     (snd (snd (addBuilding manager_with_panels world2 1700000000000 mockBuildingInsights nearLatLng1
                  ''Building 1'' None None))) = [] \<and>
   entry1\<lparr>boundary := Some 3, panels := [1, 2]\<rparr> \<notin>
     set (fst (getAllBuildings
       (fst (snd (addBuilding manager_with_panels world2 1700000000000 mockBuildingInsights nearLatLng1
                    ''Building 1'' None None)))
       (snd (snd (addBuilding manager_with_panels world2 1700000000000 mockBuildingInsights nearLatLng1
                    ''Building 1'' None None)))))"
proof -
  let ?old = "entry1\<lparr>boundary := Some 3, panels := [1, 2]\<rparr>"
  let ?add = "addBuilding manager_with_panels world2 1700000000000 mockBuildingInsights nearLatLng1
                ''Building 1'' None None"
  have lat_eq: "toFixed (lat nearLatLng1) 6 = toFixed (lat mockLatLng1) 6"
    and lng_eq: "toFixed (lng nearLatLng1) 6 = toFixed (lng mockLatLng1) 6"
    by (simp_all add: nearLatLng1_def mockLatLng1_def eval_strings)
  have live: "Map_get (buildings manager_with_panels) (generateId 1700000000000 mockLatLng1) = Some ?old"
    by (simp add: id_entry1 manager_with_panels_def)
  have inv: "ids_are_keys manager_with_panels"
    using run_ids_are_keys [of True "two_adds @ [SetBuildingPanels (id' entry1) [1, 2],
      SetBuildingBoundary (id' entry1) 3]"]
    by (simp only: run_with_panels fst_conv)
  have attached: "panels ?old \<noteq> [] \<or> boundary ?old \<noteq> None"
    by simp
  have before: "length (fst (getAllBuildings manager_with_panels world2)) = 2"
    "setMap_null_calls world2 = []"
    by (simp_all add: getAllBuildings_def manager_with_panels_def Map_values_def world2_def)
  note inst = addBuilding_same_id_replaces [OF refl lat_eq lng_eq live, where w = world2 and
      insights = mockBuildingInsights and addr = "''Building 1''" and cfg = None and nick = None,
      unfolded case_prod_beta id_entry1]
  from inst inv attached have
    "fst ?add = id' entry1"
    "length (fst (getAllBuildings (fst (snd ?add)) (snd (snd ?add)))) =
       length (fst (getAllBuildings manager_with_panels world2))"
    "setMap_null_calls (snd (snd ?add)) = setMap_null_calls world2"
    "?old \<notin> set (fst (getAllBuildings (fst (snd ?add)) (snd (snd ?add))))"
    by blast+
  with run_with_panels lat_eq lng_eq live inv before show ?thesis
    by (simp only: simp_thms)
qed

end
